theory Spec2Isabelle
  imports Main "HOL-Library.Sublist" "HOL-Library.Product_Lexorder"
begin

section \<open>Text\<close>

text \<open>
  A Python \<open>str\<close> is modelled as a \<open>string\<close>. A \<open>char\<close> stands for the code point
  of the same number, so the model covers text whose code points are below 256; the
  character classes below are Python's on that range.
\<close>

definition is_space :: "char \<Rightarrow> bool" where
  \<comment> \<open>\<open>str.isspace\<close>, which is also what \<open>strip()\<close>, \<open>split()\<close> and the pattern \<open>\s\<close> use\<close>
  "is_space c \<longleftrightarrow> c \<in> set [CHR 0x09, CHR 0x0A, CHR 0x0B, CHR 0x0C, CHR 0x0D,
     CHR 0x1C, CHR 0x1D, CHR 0x1E, CHR 0x1F, CHR 0x20, CHR 0x85, CHR 0xA0]"

definition lower_char :: "char \<Rightarrow> char" where
  "lower_char c =
     (let n = (of_char c :: nat)
      in if (65 \<le> n \<and> n \<le> 90) \<or> (192 \<le> n \<and> n \<le> 222 \<and> n \<noteq> 215)
         then char_of (n + 32) else c)"

definition lower :: "string \<Rightarrow> string" where
  \<comment> \<open>\<open>str.lower()\<close>\<close>
  "lower s = map lower_char s"

definition strip :: "string \<Rightarrow> string" where
  \<comment> \<open>\<open>str.strip()\<close>\<close>
  "strip s = rev (dropWhile is_space (rev (dropWhile is_space s)))"

definition strip_chars :: "string \<Rightarrow> string \<Rightarrow> string" where
  \<comment> \<open>\<open>s.strip(chars)\<close>\<close>
  "strip_chars chars s =
     rev (dropWhile (\<lambda>c. c \<in> set chars) (rev (dropWhile (\<lambda>c. c \<in> set chars) s)))"

definition endswith :: "string \<Rightarrow> string \<Rightarrow> bool" where
  \<comment> \<open>\<open>s.endswith(suf)\<close>\<close>
  "endswith s suf \<longleftrightarrow> suffix suf s"

definition contains :: "string \<Rightarrow> string \<Rightarrow> bool" where
  \<comment> \<open>\<open>sub in s\<close>\<close>
  "contains sub s \<longleftrightarrow> sublist sub s"

fun join :: "string \<Rightarrow> string list \<Rightarrow> string" where
  \<comment> \<open>\<open>sep.join(parts)\<close>\<close>
  "join sep [] = []"
| "join sep [p] = p"
| "join sep (p # q # ps) = p @ sep @ join sep (q # ps)"

section \<open>Data model (app/db/models.py)\<close>

text \<open>
  \<open>Message.created_at\<close> is a naive UTC datetime; only its order is used, so it is kept
  as its count of microseconds.
\<close>

record message =
  m_id :: string
  m_session_id :: string
  m_role :: string
  m_content :: string
  m_turn_index :: int
  m_created_at :: int

datatype month = January | February | March | April | May | June | July | August
  | September | October | November | December

record datetime =
  dt_year :: nat
  dt_month :: month
  dt_day :: nat
  dt_hour :: nat
  dt_minute :: nat

record order =
  o_id :: string
  o_user_id :: string
  o_status :: string
  o_last_update_at :: "datetime option"
  o_eta_date :: "datetime option"
  o_carrier :: "string option"
  o_tracking_number :: "string option"

text \<open>\<open>Product.price\<close> is a \<open>Numeric(12, 2)\<close>: a decimal kept as its count of hundredths.\<close>

record product =
  p_id :: string
  p_name :: string
  p_features :: "string option"
  p_price :: "int option"
  p_stock :: "int option"

record policy =
  pol_id :: string
  pol_type :: string
  pol_content_markdown :: string

section \<open>The environment of a request\<close>

datatype error = OperationalError | MultipleResultsFound | TypeError | BackendError

text \<open>
  Everything outside the process is one state value: the tables, the configuration read
  from the process environment, and three oracles for what the code cannot decide: which
  database round trips raise, what the clock reads, and which identifiers are drawn.
  The oracles are functions of a counter, so every run of failures and every clock is
  covered. The text-generation backend answers a system prompt and a user message with a
  text or raises. \<open>ilike\<close> is the engine's operator of that name (value, pattern).
\<close>

record world =
  messages :: "message list"
  orders :: "order list"
  products :: "product list"
  policies :: "policy list"
  ilike :: "string \<Rightarrow> string \<Rightarrow> bool"
  db_fails :: "nat \<Rightarrow> bool"
  db_ops :: nat
  clock :: "nat \<Rightarrow> int"
  clock_reads :: nat
  uuids :: "nat \<Rightarrow> string"
  uuid_reads :: nat
  llm :: "string \<Rightarrow> string \<Rightarrow> error + string"
  max_exchanges :: int

definition db_roundtrip :: "world \<Rightarrow> bool \<times> world" where
  \<comment> \<open>one \<open>execute\<close>, \<open>commit\<close> or \<open>refresh\<close>: True when it raises\<close>
  "db_roundtrip w = (db_fails w (db_ops w), w\<lparr>db_ops := Suc (db_ops w)\<rparr>)"

definition utcnow :: "world \<Rightarrow> int \<times> world" where
  "utcnow w = (clock w (clock_reads w), w\<lparr>clock_reads := Suc (clock_reads w)\<rparr>)"

definition uuid4 :: "world \<Rightarrow> string \<times> world" where
  "uuid4 w = (uuids w (uuid_reads w), w\<lparr>uuid_reads := Suc (uuid_reads w)\<rparr>)"

section \<open>Memory manager (app/core/memory.py)\<close>

definition order_by_turn_desc :: "message list \<Rightarrow> message list" where
  \<comment> \<open>\<open>ORDER BY turn_index DESC, created_at DESC\<close>; rows equal on both keys stay in
      the order of insertion, as the default engine returns them\<close>
  "order_by_turn_desc rows =
     rev (sort_key (\<lambda>m. (m_turn_index m, m_created_at m)) (rev rows))"

definition sql_limit :: "int \<Rightarrow> 'a list \<Rightarrow> 'a list" where
  \<comment> \<open>\<open>LIMIT n\<close>; the default engine (SQLite) reads a negative \<open>n\<close> as no limit\<close>
  "sql_limit n rows = (if n < 0 then rows else take (nat n) rows)"

definition select_recent_messages :: "world \<Rightarrow> string \<Rightarrow> message list" where
  \<comment> \<open>the statement of \<open>get_memory_context\<close>, lines 52-57\<close>
  "select_recent_messages w session_id =
     sql_limit (max_exchanges w * 2)
       (order_by_turn_desc (filter (\<lambda>m. m_session_id m = session_id) (messages w)))"

definition memory_rows :: "world \<Rightarrow> string \<Rightarrow> message list \<times> world" where
  \<comment> \<open>lines 47-63 and 81-87: the rows behind the excerpt, oldest first; no rows when
      the query raises\<close>
  "memory_rows w session_id =
     (case db_roundtrip w of
        (True, w') \<Rightarrow> ([], w')
      | (False, w') \<Rightarrow> (rev (select_recent_messages w' session_id), w'))"

definition get_memory_context ::
  "world \<Rightarrow> string \<Rightarrow> (string \<times> string) list \<times> world" where
  \<comment> \<open>an entry \<open>{"role": r, "content": c}\<close> is the pair \<open>(r, c)\<close>\<close>
  "get_memory_context w session_id =
     (case memory_rows w session_id of
        (rows, w') \<Rightarrow> (map (\<lambda>msg. (m_role msg, m_content msg)) rows, w'))"

definition format_memory_for_prompt :: "(string \<times> string) list \<Rightarrow> string" where
  "format_memory_for_prompt ctx =
     (if ctx = [] then ''Tidak ada riwayat percakapan sebelumnya.''
      else join ''\<newline>''
             (''Riwayat percakapan sebelumnya:'' #
              map (\<lambda>(role, content).
                     (if role = ''user'' then ''Pengguna'' else ''Asisten'') @ '': '' @ content)
                  ctx))"

section \<open>Tools (app/core/tools.py)\<close>

fun show_nat :: "nat \<Rightarrow> string" where
  \<comment> \<open>\<open>str(n)\<close> for \<open>n \<ge> 0\<close>\<close>
  "show_nat n =
     (if n < 10 then [char_of (48 + n)] else show_nat (n div 10) @ [char_of (48 + n mod 10)])"

definition pad2 :: "nat \<Rightarrow> string" where
  \<comment> \<open>the two-digit fields \<open>%d\<close>, \<open>%H\<close>, \<open>%M\<close>\<close>
  "pad2 n = (if n < 10 then ''0'' @ show_nat n else show_nat n)"

fun month_name :: "month \<Rightarrow> string" where
  \<comment> \<open>\<open>%B\<close> in the C locale\<close>
  "month_name January = ''January''"
| "month_name February = ''February''"
| "month_name March = ''March''"
| "month_name April = ''April''"
| "month_name May = ''May''"
| "month_name June = ''June''"
| "month_name July = ''July''"
| "month_name August = ''August''"
| "month_name September = ''September''"
| "month_name October = ''October''"
| "month_name November = ''November''"
| "month_name December = ''December''"

definition strftime_date :: "datetime \<Rightarrow> string" where
  \<comment> \<open>\<open>strftime("%d %B %Y")\<close>; \<open>%Y\<close> is not padded by the C library\<close>
  "strftime_date d = pad2 (dt_day d) @ '' '' @ month_name (dt_month d) @ '' '' @ show_nat (dt_year d)"

definition strftime_update :: "datetime \<Rightarrow> string" where
  \<comment> \<open>\<open>strftime("%d %B %Y pukul %H:%M")\<close>\<close>
  "strftime_update d =
     strftime_date d @ '' pukul '' @ pad2 (dt_hour d) @ '':'' @ pad2 (dt_minute d)"

definition truthy :: "string option \<Rightarrow> bool" where
  \<comment> \<open>the truth value of an optional text: neither \<open>None\<close> nor empty\<close>
  "truthy x = (case x of None \<Rightarrow> False | Some s \<Rightarrow> s \<noteq> [])"

definition scalar_one_or_none :: "'a list \<Rightarrow> error + 'a option" where
  "scalar_one_or_none rows =
     (case rows of [] \<Rightarrow> Inr None | [r] \<Rightarrow> Inr (Some r) | _ \<Rightarrow> Inl MultipleResultsFound)"

definition status_messages :: "(string \<times> string) list" where
  "status_messages =
     [(''pending'', ''sedang diproses''),
      (''confirmed'', ''telah dikonfirmasi''),
      (''shipped'', ''sedang dalam pengiriman''),
      (''delivered'', ''telah sampai tujuan''),
      (''cancelled'', ''telah dibatalkan'')]"

definition status_text :: "string \<Rightarrow> string" where
  \<comment> \<open>\<open>status_messages.get(order.status, order.status)\<close>\<close>
  "status_text status = (case map_of status_messages status of Some t \<Rightarrow> t | None \<Rightarrow> status)"

definition order_response_parts :: "string \<Rightarrow> order \<Rightarrow> string list" where
  \<comment> \<open>\<open>response_parts\<close> of \<open>get_order_status_impl\<close>, lines 51-62\<close>
  "order_response_parts order_id odr =
     [''Pesanan '' @ order_id @ '' '' @ status_text (o_status odr)]
     @ (if truthy (o_carrier odr) \<and> truthy (o_tracking_number odr)
        then [''via '' @ the (o_carrier odr) @ '' dengan nomor resi '' @ the (o_tracking_number odr)]
        else [])
     @ (if o_eta_date odr \<noteq> None \<and> o_status odr \<in> set [''confirmed'', ''shipped'']
        then [''dengan estimasi tiba '' @ strftime_date (the (o_eta_date odr))]
        else [])
     @ (if o_last_update_at odr \<noteq> None
        then [''Terakhir diupdate: '' @ strftime_update (the (o_last_update_at odr))]
        else [])"

definition order_error_message :: "string \<Rightarrow> string" where
  "order_error_message order_id =
     ''Maaf, terjadi kesalahan saat mencari pesanan '' @ order_id
       @ ''. Silakan coba lagi atau hubungi customer service.''"

definition get_order_status_impl :: "string \<Rightarrow> world \<Rightarrow> string \<times> world" where
  "get_order_status_impl order_id w =
     (case db_roundtrip w of
        (True, w') \<Rightarrow> (order_error_message order_id, w')
      | (False, w') \<Rightarrow>
          (case scalar_one_or_none (filter (\<lambda>odr. o_id odr = order_id) (orders w')) of
             Inl e \<Rightarrow> (order_error_message order_id, w')
           | Inr None \<Rightarrow>
               (''Pesanan dengan ID '' @ order_id
                  @ '' tidak ditemukan. Pastikan ID pesanan benar atau hubungi customer service.'',
                w')
           | Inr (Some odr) \<Rightarrow>
               (join ''. '' (order_response_parts order_id odr) @ ''.'', w')))"

fun group_thousands_rev :: "string \<Rightarrow> string" where
  \<comment> \<open>the grouping of the \<open>,\<close> format option, on the digits from the right\<close>
  "group_thousands_rev (a # b # c # d # ds) = a # b # c # CHR '','' # group_thousands_rev (d # ds)"
| "group_thousands_rev ds = ds"

definition round_half_even_100 :: "nat \<Rightarrow> nat" where
  \<comment> \<open>a count of hundredths to the nearest unit, ties to even\<close>
  "round_half_even_100 a =
     (let q = a div 100; r = a mod 100
      in if r > 50 then q + 1 else if r < 50 then q else if even q then q else q + 1)"

definition format_price :: "int \<Rightarrow> string" where
  \<comment> \<open>\<open>f"Rp {price:,.0f}".replace(",", ".")\<close> for a decimal of \<open>price\<close> hundredths\<close>
  "format_price price =
     map (\<lambda>c. if c = CHR '','' then CHR ''.'' else c)
       (''Rp '' @ (if price < 0 then ''-'' else [])
          @ rev (group_thousands_rev (rev (show_nat (round_half_even_100 (nat \<bar>price\<bar>))))))"

definition product_response_parts :: "product \<Rightarrow> string list" where
  \<comment> \<open>\<open>response_parts\<close> of \<open>get_product_info_impl\<close>, lines 102-115\<close>
  "product_response_parts prd =
     [''Produk: '' @ p_name prd]
     @ (if truthy (p_features prd) then [''Fitur: '' @ the (p_features prd)] else [])
     @ (case p_price prd of
          None \<Rightarrow> []
        | Some price \<Rightarrow> if price \<noteq> 0 then [''Harga: '' @ format_price price] else [])
     @ (case p_stock prd of
          None \<Rightarrow> []
        | Some stock \<Rightarrow>
            if stock > 0 then [''Stok: '' @ show_nat (nat stock) @ '' unit tersedia'']
            else [''Stok: sedang kosong''])"

definition product_error_message :: "string \<Rightarrow> string" where
  "product_error_message product_name =
     ''Maaf, terjadi kesalahan saat mencari produk '' @ [CHR 0x27] @ product_name
       @ [CHR 0x27] @ ''. Silakan coba lagi.''"

definition get_product_info_impl :: "string \<Rightarrow> world \<Rightarrow> string \<times> world" where
  "get_product_info_impl product_name w =
     (case db_roundtrip w of
        (True, w') \<Rightarrow> (product_error_message product_name, w')
      | (False, w') \<Rightarrow>
          (case filter (\<lambda>prd. ilike w' (p_name prd) (''%'' @ product_name @ ''%'')) (products w') of
             [] \<Rightarrow>
               (''Produk '' @ [CHR 0x27] @ product_name @ [CHR 0x27]
                  @ '' tidak ditemukan. Silakan periksa nama produk atau lihat katalog lengkap di website kami.'',
                w')
           | prd # _ \<Rightarrow> (join ''. '' (product_response_parts prd) @ ''.'', w')))"

definition default_warranty_policy :: string where
  "default_warranty_policy =
     ''Prosedur klaim garansi:\<newline>''
     @ ''1. Siapkan nota pembelian asli dan kartu garansi\<newline>''
     @ ''2. Hubungi customer service di 0800-1234-5678 (gratis) atau email cs@toko.com\<newline>''
     @ ''3. Jelaskan masalah produk dengan detail\<newline>''
     @ ''4. Tim CS akan memberikan instruksi selanjutnya (perbaikan atau penggantian)\<newline>''
     @ ''5. Garansi berlaku 1 tahun dari tanggal pembelian untuk kerusakan manufaktur\<newline>''
     @ ''\<newline>''
     @ ''Catatan: Garansi tidak berlaku untuk kerusakan akibat kesalahan penggunaan atau faktor eksternal.''"

definition warranty_error_message :: string where
  "warranty_error_message =
     ''Maaf, terjadi kesalahan saat mengambil informasi garansi. Silakan hubungi customer service di 0800-1234-5678.''"

definition get_warranty_policy_impl :: "world \<Rightarrow> string \<times> world" where
  "get_warranty_policy_impl w =
     (case db_roundtrip w of
        (True, w') \<Rightarrow> (warranty_error_message, w')
      | (False, w') \<Rightarrow>
          (case scalar_one_or_none (filter (\<lambda>pol. pol_type pol = ''warranty'') (policies w')) of
             Inl e \<Rightarrow> (warranty_error_message, w')
           | Inr None \<Rightarrow> (default_warranty_policy, w')
           | Inr (Some pol) \<Rightarrow> (pol_content_markdown pol, w')))"

text \<open>
  A \<open>Tool\<close> is a name and a function; the function gets its positional arguments and
  the state it runs in, and returns a text or raises.
\<close>

record tool =
  tool_name :: string
  tool_func :: "string list \<Rightarrow> world \<Rightarrow> (error + string) \<times> world"

definition create_order_status_tool :: tool where
  "create_order_status_tool =
     \<lparr>tool_name = ''get_order_status'',
      tool_func = (\<lambda>args w. case args of
                      [order_id] \<Rightarrow> (case get_order_status_impl order_id w of (r, w') \<Rightarrow> (Inr r, w'))
                    | _ \<Rightarrow> (Inl TypeError, w))\<rparr>"

definition create_product_info_tool :: tool where
  "create_product_info_tool =
     \<lparr>tool_name = ''get_product_info'',
      tool_func = (\<lambda>args w. case args of
                      [product_name] \<Rightarrow>
                        (case get_product_info_impl product_name w of (r, w') \<Rightarrow> (Inr r, w'))
                    | _ \<Rightarrow> (Inl TypeError, w))\<rparr>"

definition create_warranty_policy_tool :: tool where
  "create_warranty_policy_tool =
     \<lparr>tool_name = ''get_warranty_policy'',
      tool_func = (\<lambda>args w. case args of
                      [] \<Rightarrow> (case get_warranty_policy_impl w of (r, w') \<Rightarrow> (Inr r, w'))
                    | _ \<Rightarrow> (Inl TypeError, w))\<rparr>"

definition get_tools :: "tool list" where
  "get_tools = [create_order_status_tool, create_product_info_tool, create_warranty_policy_tool]"

section \<open>Prompts (app/llm/prompts.py)\<close>

text \<open>
  \<open>SYSTEM_PROMPT\<close> has two replacement fields and no other brace; it is kept as the three
  texts around \<open>{memory_context}\<close> and \<open>{user_message}\<close>.
\<close>

definition SYSTEM_PROMPT_head :: string where
  \<open>SYSTEM_PROMPT_head =
     ''Anda adalah Chatbot Customer Support untuk sebuah toko online sederhana. \<newline>''
     @ ''\<newline>''
     @ ''TUJUAN:\<newline>''
     @ ''- Menjawab pertanyaan pengguna dengan jelas, ringkas, dan membantu\<newline>''
     @ ''- Memanggil tools bila diperlukan untuk mendapatkan informasi akurat\<newline>''
     @ ''- Mempertahankan memori jangka pendek dari 3 interaksi terakhir per sesi\<newline>''
     @ ''\<newline>''
     @ ''INTENTS YANG DIDUKUNG:\<newline>''
     @ ''1. Status pesanan - jika user menanyakan pesanan dengan menyebutkan ID\<newline>''
     @ ''2. Informasi produk - jika user menanyakan kelebihan/fitur/spesifikasi produk\<newline>''
     @ ''3. Prosedur garansi - jika user menanyakan tentang klaim garansi\<newline>''
     @ ''\<newline>''
     @ ''ATURAN PENTING:\<newline>''
     @ ''- Jika user menanyakan pesanan dengan ID, WAJIB gunakan tool get_order_status\<newline>''
     @ ''- Jika user menanyakan produk tertentu, gunakan tool get_product_info\<newline>''
     @ ''- Jika user menanyakan garansi, gunakan tool get_warranty_policy\<newline>''
     @ ''- Berikan jawaban faktual dan step-by-step, hindari halusinasi\<newline>''
     @ ''- Jika informasi tidak lengkap, ajukan pertanyaan klarifikasi singkat\<newline>''
     @ ''- Batasi respons maksimal 180 kata kecuali user meminta detail\<newline>''
     @ ''- SELALU akhiri dengan ringkasan satu kalimat diawali "Ringkas: ..."\<newline>''
     @ ''\<newline>''
     @ ''GAYA KOMUNIKASI:\<newline>''
     @ ''- Ramah, profesional, dalam Bahasa Indonesia\<newline>''
     @ ''- Gunakan struktur yang jelas dengan numbering jika ada langkah-langkah\<newline>''
     @ ''- Hindari jargon teknis berlebihan\<newline>''
     @ ''\<newline>''
     @ ''CONTOH INTERAKSI:\<newline>''
     @ ''\<newline>''
     @ ''User: "Di mana pesanan saya? ID: ORD123"\<newline>''
     @ ''Assistant: [Memanggil get_order_status("ORD123")]\<newline>''
     @ ''Pesanan ORD123 sedang dalam pengiriman via JNE dengan nomor resi JNE789. Estimasi tiba 2 hari lagi pada 18 September 2025. Terakhir diupdate: 16 September 2025 pukul 14:30.\<newline>''
     @ ''\<newline>''
     @ ''Ringkas: Pesanan Anda sedang dikirim dan akan tiba dalam 2 hari.\<newline>''
     @ ''\<newline>''
     @ ''User: "Apa kelebihan laptop gaming X?"\<newline>''
     @ ''Assistant: [Memanggil get_product_info("laptop gaming X")]\<newline>''
     @ ''Produk: Laptop Gaming X Pro. Fitur: Processor Intel i7-12700H, RAM 16GB DDR4, GPU RTX 4060 8GB, Storage 1TB NVMe SSD, Display 15.6" 144Hz. Harga: Rp 18.500.000. Stok: 5 unit tersedia.\<newline>''
     @ ''\<newline>''
     @ ''Keunggulan utama:\<newline>''
     @ ''1. Performa gaming tinggi dengan RTX 4060\<newline>''
     @ ''2. Refresh rate 144Hz untuk gaming smooth\<newline>''
     @ ''3. Storage SSD cepat untuk loading game\<newline>''
     @ ''4. RAM besar mendukung multitasking\<newline>''
     @ ''\<newline>''
     @ ''Ringkas: Laptop Gaming X Pro cocok untuk gaming berat dengan spesifikasi high-end dan harga kompetitif.\<newline>''
     @ ''\<newline>''
     @ ''User: "Bagaimana cara klaim garansi?"\<newline>''
     @ ''Assistant: [Memanggil get_warranty_policy()]\<newline>''
     @ ''Prosedur klaim garansi:\<newline>''
     @ ''1. Siapkan nota pembelian asli dan kartu garansi\<newline>''
     @ ''2. Hubungi customer service di 0800-1234-5678 (gratis) atau email cs@toko.com\<newline>''
     @ ''3. Jelaskan masalah produk dengan detail\<newline>''
     @ ''4. Tim CS akan memberikan instruksi selanjutnya (perbaikan atau penggantian)\<newline>''
     @ ''5. Garansi berlaku 1 tahun dari tanggal pembelian untuk kerusakan manufaktur\<newline>''
     @ ''\<newline>''
     @ ''Catatan: Garansi tidak berlaku untuk kerusakan akibat kesalahan penggunaan.\<newline>''
     @ ''\<newline>''
     @ ''Ringkas: Siapkan nota pembelian dan hubungi CS di 0800-1234-5678 untuk memulai proses klaim garansi.\<newline>''
     @ ''\<newline>''
     @ ''MEMORI KONTEKS:\<newline>''\<close>

definition SYSTEM_PROMPT_middle :: string where
  \<open>SYSTEM_PROMPT_middle =
     ''\<newline>''
     @ ''\<newline>''
     @ ''PESAN SAAT INI:\<newline>''\<close>

definition SYSTEM_PROMPT_tail :: string where
  \<open>SYSTEM_PROMPT_tail =
     ''\<newline>''
     @ ''\<newline>''
     @ ''Berikan respons yang tepat berdasarkan konteks memori dan gunakan tools yang sesuai bila diperlukan.''\<close>

definition FALLBACK_PROMPT :: string where
  \<open>FALLBACK_PROMPT =
     ''Maaf, saya adalah chatbot customer support yang khusus membantu dengan:\<newline>''
     @ ''\<newline>''
     @ ''1. **Status Pesanan** - Cek pesanan dengan menyebutkan ID pesanan\<newline>''
     @ ''2. **Informasi Produk** - Tanyakan spesifikasi atau fitur produk tertentu  \<newline>''
     @ ''3. **Klaim Garansi** - Prosedur dan syarat klaim garansi\<newline>''
     @ ''\<newline>''
     @ ''Contoh pertanyaan yang bisa saya bantu:\<newline>''
     @ ''- "Di mana pesanan saya? ID: ORD123"\<newline>''
     @ ''- "Apa kelebihan laptop gaming Y?"\<newline>''
     @ ''- "Bagaimana cara klaim garansi?"\<newline>''
     @ ''\<newline>''
     @ ''Silakan ajukan pertanyaan sesuai kategori di atas, atau hubungi customer service di 0800-1234-5678 untuk bantuan lainnya.\<newline>''
     @ ''\<newline>''
     @ ''Ringkas: Saya membantu status pesanan, info produk, dan klaim garansi - silakan tanyakan sesuai kategori tersebut.''\<close>

definition get_fallback_response :: string where
  "get_fallback_response = FALLBACK_PROMPT"

definition format_prompt_with_context :: "string \<Rightarrow> string \<Rightarrow> string" where
  \<comment> \<open>\<open>SYSTEM_PROMPT.format(user_message=..., memory_context=...)\<close>\<close>
  "format_prompt_with_context user_message memory_context =
     SYSTEM_PROMPT_head @ memory_context @ SYSTEM_PROMPT_middle @ user_message @ SYSTEM_PROMPT_tail"

section \<open>Chat chain (app/llm/chain.py)\<close>

subsection \<open>Intent keywords\<close>

definition any_keyword :: "string list \<Rightarrow> string \<Rightarrow> bool" where
  \<comment> \<open>\<open>any(keyword.lower() in message.lower() for keyword in keywords)\<close>\<close>
  "any_keyword keywords message \<longleftrightarrow>
     list_ex (\<lambda>keyword. contains (lower keyword) (lower message)) keywords"

definition should_call_order_tool :: "string \<Rightarrow> bool" where
  "should_call_order_tool message \<longleftrightarrow>
     any_keyword [''pesanan'', ''order'', ''status'', ''di mana'', ''dimana'', ''ID:'', ''id:'', ''ORD'']
       message"

definition should_call_product_tool :: "string \<Rightarrow> bool" where
  "should_call_product_tool message \<longleftrightarrow>
     any_keyword [''produk'', ''kelebihan'', ''fitur'', ''spesifikasi'', ''harga'', ''laptop'',
                  ''smartphone'', ''apa kelebihan'']
       message"

definition should_call_warranty_tool :: "string \<Rightarrow> bool" where
  "should_call_warranty_tool message \<longleftrightarrow>
     any_keyword [''garansi'', ''warranty'', ''klaim'', ''cara klaim'', ''prosedur''] message"

subsection \<open>The patterns\<close>

text \<open>
  Every pattern is searched with \<open>re.IGNORECASE\<close>. Each is written as the function that
  tries it at the start of a text and returns group 1, and \<open>re.search\<close> takes the first
  position where it matches. The greedy and lazy repetitions of these patterns range over
  classes disjoint from what follows them, so trying the longest run is all the
  backtracking there is; the one exception is spelled out at \<open>match_product_pattern\<close>.
\<close>

definition is_ascii_alnum :: "char \<Rightarrow> bool" where
  \<comment> \<open>\<open>[A-Z0-9]\<close> and \<open>[A-Za-z0-9]\<close>, ignoring case\<close>
  "is_ascii_alnum c \<longleftrightarrow>
     (let n = (of_char c :: nat)
      in (48 \<le> n \<and> n \<le> 57) \<or> (65 \<le> n \<and> n \<le> 90) \<or> (97 \<le> n \<and> n \<le> 122))"

definition is_word :: "char \<Rightarrow> bool" where
  \<comment> \<open>\<open>\w\<close>: \<open>str.isalnum\<close> or the underscore\<close>
  "is_word c \<longleftrightarrow>
     (let n = (of_char c :: nat)
      in is_ascii_alnum c \<or> n = 95 \<or> n \<in> set [170, 178, 179, 181, 185, 186, 188, 189, 190]
         \<or> (192 \<le> n \<and> n \<noteq> 215 \<and> n \<noteq> 247))"

fun match_literal :: "string \<Rightarrow> string \<Rightarrow> string option" where
  \<comment> \<open>a literal, ignoring case; returns the text after it\<close>
  "match_literal [] s = Some s"
| "match_literal (l # ls) [] = None"
| "match_literal (l # ls) (c # cs) =
     (if lower_char c = lower_char l then match_literal ls cs else None)"

fun re_search :: "(string \<Rightarrow> string option) \<Rightarrow> string \<Rightarrow> string option" where
  "re_search m [] = m []"
| "re_search m (c # cs) = (case m (c # cs) of Some g \<Rightarrow> Some g | None \<Rightarrow> re_search m cs)"

definition match_id_pattern :: "string \<Rightarrow> string option" where
  \<comment> \<open>\<open>ID\s*:\s*([A-Z0-9]+)\<close>, and \<open>id\s*:\s*([A-Z0-9]+)\<close>, which is the same ignoring case\<close>
  "match_id_pattern s =
     (case match_literal ''id'' s of
        None \<Rightarrow> None
      | Some r \<Rightarrow>
          (case dropWhile is_space r of
             [] \<Rightarrow> None
           | c # r' \<Rightarrow>
               if c = CHR '':'' then
                 (let g = takeWhile is_ascii_alnum (dropWhile is_space r')
                  in if g = [] then None else Some g)
               else None))"

definition match_ord_pattern :: "char option \<Rightarrow> string \<Rightarrow> string option" where
  \<comment> \<open>\<open>\b(ORD[A-Z0-9]+)\b\<close> at a position whose preceding character is \<open>prev\<close>\<close>
  "match_ord_pattern prev s =
     (if (case prev of None \<Rightarrow> True | Some p \<Rightarrow> \<not> is_word p) then
        (case match_literal ''ord'' s of
           None \<Rightarrow> None
         | Some r \<Rightarrow>
             (let run = takeWhile is_ascii_alnum r
              in if run \<noteq> [] \<and> (case dropWhile is_ascii_alnum r of [] \<Rightarrow> True | c # _ \<Rightarrow> \<not> is_word c)
                 then Some (take 3 s @ run) else None))
      else None)"

fun search_ord_pattern :: "char option \<Rightarrow> string \<Rightarrow> string option" where
  "search_ord_pattern prev [] = None"
| "search_ord_pattern prev (c # cs) =
     (case match_ord_pattern prev (c # cs) of
        Some g \<Rightarrow> Some g
      | None \<Rightarrow> search_ord_pattern (Some c) cs)"

fun first_match :: "(string \<Rightarrow> string option) list \<Rightarrow> string \<Rightarrow> string option" where
  \<comment> \<open>\<open>for pattern in patterns: match = re.search(...); if match: return ...\<close>\<close>
  "first_match [] message = None"
| "first_match (p # ps) message =
     (case p message of Some g \<Rightarrow> Some g | None \<Rightarrow> first_match ps message)"

definition extract_order_id :: "string \<Rightarrow> string" where
  "extract_order_id message =
     (case first_match
             [re_search match_id_pattern, re_search match_id_pattern, search_ord_pattern None]
             message of
        Some g \<Rightarrow> g
      | None \<Rightarrow> [])"

definition match_product_pattern :: "string \<Rightarrow> string \<Rightarrow> string option" where
  \<comment> \<open>\<open>kw\s+([A-Za-z0-9\s]+?)[\?\.]\<close>. After the spaces, the group runs to the first
      character outside its class, which has to be \<open>?\<close> or \<open>.\<close>. When that character
      follows the spaces at once, \<open>\s+\<close> gives its last space to the group, if it has
      two or more.\<close>
  "match_product_pattern kw s =
     (case match_literal kw s of
        None \<Rightarrow> None
      | Some r \<Rightarrow>
          (let ws = takeWhile is_space r;
               r' = dropWhile is_space r;
               in_class = (\<lambda>c. is_ascii_alnum c \<or> is_space c);
               run = takeWhile in_class r'
           in if ws = [] then None
              else (case dropWhile in_class r' of
                      [] \<Rightarrow> None
                    | t # _ \<Rightarrow>
                        if t = CHR ''?'' \<or> t = CHR ''.'' then
                          (if run \<noteq> [] then Some run
                           else if 2 \<le> length ws then Some [last ws]
                           else None)
                        else None)))"

fun split_go :: "string \<Rightarrow> nat \<Rightarrow> string \<Rightarrow> string \<Rightarrow> string list" where
  \<comment> \<open>\<open>split_go sep skip cur s\<close>: \<open>cur\<close> is the part being read, reversed; \<open>skip\<close> counts the
      characters of a separator still to pass\<close>
  "split_go sep skip cur [] = [rev cur]"
| "split_go sep skip cur (c # cs) =
     (if 0 < skip then split_go sep (skip - 1) cur cs
      else if prefix sep (c # cs) then rev cur # split_go sep (length sep - 1) [] cs
      else split_go sep 0 (c # cur) cs)"

definition split_sep :: "string \<Rightarrow> string \<Rightarrow> string list" where
  \<comment> \<open>\<open>s.split(sep)\<close> for a non-empty \<open>sep\<close>\<close>
  "split_sep sep s = split_go sep 0 [] s"

fun words_go :: "string \<Rightarrow> string \<Rightarrow> string list" where
  "words_go cur [] = (if cur = [] then [] else [rev cur])"
| "words_go cur (c # cs) =
     (if is_space c then (if cur = [] then words_go [] cs else rev cur # words_go [] cs)
      else words_go (c # cur) cs)"

definition split_words :: "string \<Rightarrow> string list" where
  \<comment> \<open>\<open>s.split()\<close>\<close>
  "split_words s = words_go [] s"

fun extract_after_keyword :: "string list \<Rightarrow> string \<Rightarrow> string option" where
  \<comment> \<open>the loop of lines 207-214\<close>
  "extract_after_keyword [] message = None"
| "extract_after_keyword (keyword # keywords) message =
     (if contains (lower keyword) (lower message) then
        (let parts = split_sep (lower keyword) (lower message)
         in if 1 < length parts then
              (let candidate = take 3 (split_words (strip (parts ! 1)))
               in Some (strip_chars ''.,?!'' (join '' '' candidate)))
            else extract_after_keyword keywords message)
      else extract_after_keyword keywords message)"

definition extract_product_name :: "string \<Rightarrow> string" where
  "extract_product_name message =
     (case first_match
             [re_search (match_product_pattern ''produk''),
              re_search (match_product_pattern ''laptop''),
              re_search (match_product_pattern ''smartphone'')]
             message of
        Some g \<Rightarrow> strip g
      | None \<Rightarrow>
          (case extract_after_keyword [''produk'', ''laptop'', ''smartphone''] message of
             Some name \<Rightarrow> name
           | None \<Rightarrow> ''produk''))"

subsection \<open>Response generation\<close>

definition generate_response_with_tools :: "(string \<times> string) list \<Rightarrow> string" where
  \<comment> \<open>\<open>tool_results\<close> is the dictionary, as its list of items\<close>
  "generate_response_with_tools tool_results =
     (case map_of tool_results ''order_status'' of
        Some result \<Rightarrow>
          (if \<not> endswith result ''Ringkas:''
           then result @ ''\<newline>\<newline>Ringkas: Informasi pesanan telah ditemukan dan disampaikan.''
           else result)
      | None \<Rightarrow>
     (case map_of tool_results ''product_info'' of
        Some result \<Rightarrow>
          (if \<not> endswith result ''Ringkas:''
           then result @ ''\<newline>\<newline>Ringkas: Informasi produk telah disampaikan dengan lengkap.''
           else result)
      | None \<Rightarrow>
     (case map_of tool_results ''warranty_policy'' of
        Some result \<Rightarrow>
          (if \<not> endswith result ''Ringkas:''
           then result @ ''\<newline>\<newline>Ringkas: Prosedur klaim garansi telah dijelaskan lengkap.''
           else result)
      | None \<Rightarrow> ''Maaf, terjadi kesalahan dalam memproses permintaan Anda.'')))"

definition generate_regular_response :: "world \<Rightarrow> string \<Rightarrow> string \<Rightarrow> string" where
  "generate_regular_response w user_message memory_context =
     (case llm w (format_prompt_with_context user_message memory_context) user_message of
        Inr content \<Rightarrow> content
      | Inl e \<Rightarrow> get_fallback_response)"

definition ensure_summary :: "string \<Rightarrow> string" where
  \<comment> \<open>\<open>invoke\<close>, lines 120-124\<close>
  "ensure_summary response_message =
     (if \<not> endswith (strip response_message) ''Ringkas:'' then
        (if \<not> contains ''Ringkas:'' response_message
         then response_message @ ''\<newline>\<newline>Ringkas: Sudah memberikan jawaban sesuai pertanyaan Anda.''
         else response_message)
      else response_message)"

subsection \<open>Tool dispatch and \<open>invoke\<close>\<close>

definition call_tool ::
  "tool list \<Rightarrow> string \<Rightarrow> string list \<Rightarrow> string \<Rightarrow> world
     \<Rightarrow> (error + string list \<times> (string \<times> string) list) \<times> world" where
  \<comment> \<open>\<open>next((t for t in tools if t.name == name), None)\<close> and, when there is such a tool,
      the call, \<open>tool_results[key] = result\<close> and \<open>tool_calls.append(name)\<close>\<close>
  "call_tool tools name args key w =
     (case find (\<lambda>t. tool_name t = name) tools of
        None \<Rightarrow> (Inr ([], []), w)
      | Some t \<Rightarrow>
          (case tool_func t args w of
             (Inl e, w') \<Rightarrow> (Inl e, w')
           | (Inr result, w') \<Rightarrow> (Inr ([name], [(key, result)]), w')))"

definition dispatch_tools ::
  "string \<Rightarrow> tool list \<Rightarrow> world \<Rightarrow> (error + string list \<times> (string \<times> string) list) \<times> world" where
  \<comment> \<open>\<open>invoke\<close>, lines 80-108: the pair \<open>(tool_calls, tool_results)\<close>\<close>
  "dispatch_tools user_message tools w =
     (if should_call_order_tool user_message then
        (let order_id = extract_order_id user_message
         in if order_id \<noteq> [] then call_tool tools ''get_order_status'' [order_id] ''order_status'' w
            else (Inr ([], []), w))
      else if should_call_product_tool user_message then
        (let product_name = extract_product_name user_message
         in if product_name \<noteq> []
            then call_tool tools ''get_product_info'' [product_name] ''product_info'' w
            else (Inr ([], []), w))
      else if should_call_warranty_tool user_message then
        call_tool tools ''get_warranty_policy'' [] ''warranty_policy'' w
      else (Inr ([], []), w))"

record chain_result =
  cr_message :: string
  cr_tool_calls :: "string list"
  cr_session_id :: string

definition invoke ::
  "world \<Rightarrow> string \<Rightarrow> (string \<times> string) list \<Rightarrow> tool list \<Rightarrow> string \<Rightarrow> chain_result \<times> world" where
  "invoke w user_message memory_context tools session_id =
     (let memory_text = format_memory_for_prompt memory_context
      in case dispatch_tools user_message tools w of
           (Inl e, w') \<Rightarrow>
             (\<lparr>cr_message = get_fallback_response, cr_tool_calls = [],
               cr_session_id = session_id\<rparr>, w')
         | (Inr (tool_calls, tool_results), w') \<Rightarrow>
             (let response_message =
                    (if tool_results \<noteq> [] then generate_response_with_tools tool_results
                     else generate_regular_response w' user_message memory_text)
              in (\<lparr>cr_message = ensure_summary response_message, cr_tool_calls = tool_calls,
                   cr_session_id = session_id\<rparr>, w')))"

section \<open>Chat service (app/core/chat_service.py)\<close>

definition max_turn_index :: "message list \<Rightarrow> int option" where
  \<comment> \<open>\<open>func.max(Message.turn_index)\<close>: \<open>NULL\<close> over no rows\<close>
  "max_turn_index rows =
     (case rows of [] \<Rightarrow> None | r # rs \<Rightarrow> Some (fold (\<lambda>m a. max (m_turn_index m) a) rs (m_turn_index r)))"

definition get_next_turn_index :: "world \<Rightarrow> string \<Rightarrow> (error + int) \<times> world" where
  "get_next_turn_index w session_id =
     (case db_roundtrip w of
        (True, w') \<Rightarrow> (Inl OperationalError, w')
      | (False, w') \<Rightarrow>
          (let max_turn = max_turn_index (filter (\<lambda>m. m_session_id m = session_id) (messages w'))
           in (Inr ((case max_turn of None \<Rightarrow> 0 | Some t \<Rightarrow> if t = 0 then 0 else t) + 1), w')))"

definition save_message ::
  "world \<Rightarrow> string \<Rightarrow> string \<Rightarrow> string \<Rightarrow> int \<Rightarrow> (error + message) \<times> world" where
  \<comment> \<open>the row is in the table once \<open>commit\<close> has returned; \<open>refresh\<close> reads it back\<close>
  "save_message w session_id role content turn_index =
     (case uuid4 w of (ident, w1) \<Rightarrow>
      case utcnow w1 of (now, w2) \<Rightarrow>
        (let msg = \<lparr>m_id = ident, m_session_id = session_id, m_role = role, m_content = content,
                    m_turn_index = turn_index, m_created_at = now\<rparr>
         in case db_roundtrip w2 of
              (True, w3) \<Rightarrow> (Inl OperationalError, w3)
            | (False, w3) \<Rightarrow>
                (case db_roundtrip (w3\<lparr>messages := messages w3 @ [msg]\<rparr>) of
                   (True, w4) \<Rightarrow> (Inl OperationalError, w4)
                 | (False, w4) \<Rightarrow> (Inr msg, w4))))"

record chat_response =
  r_message :: string
  r_session_id :: string
  r_turn_index :: int
  r_tool_calls :: "string list"
  r_timestamp :: int

definition process_message_begin ::
  "world \<Rightarrow> string \<Rightarrow> string \<Rightarrow> (error + int \<times> (string \<times> string) list) \<times> world" where
  \<comment> \<open>\<open>process_message\<close>, lines 56-69: the turn index and the memory excerpt of the turn\<close>
  "process_message_begin w session_id user_message =
     (case get_next_turn_index w session_id of
        (Inl e, w1) \<Rightarrow> (Inl e, w1)
      | (Inr turn_index, w1) \<Rightarrow>
          (case save_message w1 session_id ''user'' user_message turn_index of
             (Inl e, w2) \<Rightarrow> (Inl e, w2)
           | (Inr user_msg, w2) \<Rightarrow>
               (case get_memory_context w2 session_id of
                  (memory_context, w3) \<Rightarrow> (Inr (turn_index, memory_context), w3))))"

definition process_message ::
  "world \<Rightarrow> string \<Rightarrow> string \<Rightarrow> (error + chat_response) \<times> world" where
  \<comment> \<open>an exception leaves through \<open>Inl\<close>; the \<open>rollback\<close> of the handler finds nothing
      uncommitted to undo\<close>
  "process_message w session_id user_message =
     (case process_message_begin w session_id user_message of
        (Inl e, w3) \<Rightarrow> (Inl e, w3)
      | (Inr (turn_index, memory_context), w3) \<Rightarrow>
          (case invoke w3 user_message memory_context get_tools session_id of
             (llm_response, w4) \<Rightarrow>
               (case save_message w4 session_id ''assistant'' (cr_message llm_response) turn_index of
                  (Inl e, w5) \<Rightarrow> (Inl e, w5)
                | (Inr assistant_msg, w5) \<Rightarrow>
                    (Inr \<lparr>r_message = cr_message llm_response, r_session_id = session_id,
                          r_turn_index = turn_index, r_tool_calls = cr_tool_calls llm_response,
                          r_timestamp = m_created_at assistant_msg\<rparr>, w5))))"

section \<open>Vocabulary of the properties\<close>

definition last_line :: "string \<Rightarrow> string" where
  \<comment> \<open>the text after the last line break\<close>
  "last_line s = rev (takeWhile (\<lambda>c. c \<noteq> CHR 0x0A) (rev s))"

definition ends_with_summary_line :: "string \<Rightarrow> bool" where
  \<comment> \<open>the last line begins with the marker\<close>
  "ends_with_summary_line s \<longleftrightarrow> prefix ''Ringkas:'' (last_line s)"

definition session_rows :: "world \<Rightarrow> string \<Rightarrow> message list" where
  "session_rows w session_id = filter (\<lambda>m. m_session_id m = session_id) (messages w)"

definition expected_turn_index :: "world \<Rightarrow> string \<Rightarrow> int" where
  \<comment> \<open>one more than the greatest turn index of the session, with 0 for a session
      that has no message\<close>
  "expected_turn_index w session_id =
     1 + (if session_rows w session_id = [] then 0
          else Max (m_turn_index ` set (session_rows w session_id)))"

fun run_turns :: "world \<Rightarrow> string \<Rightarrow> string list \<Rightarrow> (error + chat_response) list \<times> world" where
  \<comment> \<open>sequential use: one call of \<open>process_message\<close> after the other on one session\<close>
  "run_turns w session_id [] = ([], w)"
| "run_turns w session_id (text # texts) =
     (case process_message w session_id text of
        (r, w') \<Rightarrow> (case run_turns w' session_id texts of (rs, w'') \<Rightarrow> (r # rs, w'')))"

section \<open>Example states\<close>

definition example_order :: order where
  "example_order =
     \<lparr>o_id = ''ORD123'', o_user_id = ''u1'', o_status = ''shipped'',
      o_last_update_at = Some \<lparr>dt_year = 2025, dt_month = September, dt_day = 16,
                                dt_hour = 14, dt_minute = 30\<rparr>,
      o_eta_date = Some \<lparr>dt_year = 2025, dt_month = September, dt_day = 18,
                          dt_hour = 0, dt_minute = 0\<rparr>,
      o_carrier = Some ''JNE'', o_tracking_number = Some ''JNE789''\<rparr>"

definition empty_world :: world where
  \<comment> \<open>an empty message log, one order, no policy, a database that never fails and a
      backend that answers \<open>Halo\<close>\<close>
  "empty_world =
     \<lparr>messages = [], orders = [example_order], products = [], policies = [],
      ilike = (\<lambda>v p. False), db_fails = (\<lambda>n. False), db_ops = 0,
      clock = (\<lambda>n. int n), clock_reads = 0, uuids = (\<lambda>n. show_nat n), uuid_reads = 0,
      llm = (\<lambda>p u. Inr ''Halo''), max_exchanges = 3\<rparr>"

definition example_log :: "message list" where
  "example_log =
     [\<lparr>m_id = ''a'', m_session_id = ''s1'', m_role = ''user'', m_content = ''satu'',
       m_turn_index = 1, m_created_at = 10\<rparr>,
      \<lparr>m_id = ''b'', m_session_id = ''s1'', m_role = ''assistant'', m_content = ''dua'',
       m_turn_index = 1, m_created_at = 11\<rparr>,
      \<lparr>m_id = ''c'', m_session_id = ''s2'', m_role = ''user'', m_content = ''lain'',
       m_turn_index = 1, m_created_at = 12\<rparr>,
      \<lparr>m_id = ''d'', m_session_id = ''s1'', m_role = ''user'', m_content = ''tiga'',
       m_turn_index = 2, m_created_at = 20\<rparr>,
      \<lparr>m_id = ''e'', m_session_id = ''s1'', m_role = ''assistant'', m_content = ''empat'',
       m_turn_index = 2, m_created_at = 21\<rparr>]"

definition logged_world :: world where
  \<comment> \<open>two earlier turns of session \<open>s1\<close>, and a window of one exchange\<close>
  "logged_world = empty_world\<lparr>messages := example_log, max_exchanges := 1\<rparr>"

definition memory_fault_world :: world where
  \<comment> \<open>the fourth database round trip raises, and no other\<close>
  "memory_fault_world = empty_world\<lparr>db_fails := (\<lambda>n. n = 3)\<rparr>"

definition marker_inside_world :: world where
  \<comment> \<open>a backend whose answer has the marker in its first line and another line after it\<close>
  "marker_inside_world =
     empty_world\<lparr>llm := (\<lambda>p u. Inr ''Ringkas: Halo.\<newline>Ada lagi yang bisa saya bantu?'')\<rparr>"

definition backend_down_world :: world where
  \<comment> \<open>the text-generation backend raises on every call\<close>
  "backend_down_world = empty_world\<lparr>llm := (\<lambda>p u. Inl BackendError)\<rparr>"

definition delivered_world :: world where
  \<comment> \<open>the example order, delivered\<close>
  "delivered_world = empty_world\<lparr>orders := [example_order\<lparr>o_status := ''delivered''\<rparr>]\<rparr>"

definition one_warranty_world :: world where
  \<comment> \<open>one policy of type \<open>warranty\<close>, beside one of another type\<close>
  "one_warranty_world =
     empty_world\<lparr>policies :=
       [\<lparr>pol_id = ''p0'', pol_type = ''return'', pol_content_markdown = ''Retur dalam 7 hari.''\<rparr>,
        \<lparr>pol_id = ''p1'', pol_type = ''warranty'',
          pol_content_markdown = ''Garansi resmi satu tahun.''\<rparr>]\<rparr>"

definition two_warranty_world :: world where
  \<comment> \<open>two policies of type \<open>warranty\<close>\<close>
  "two_warranty_world =
     empty_world\<lparr>policies :=
       [\<lparr>pol_id = ''p1'', pol_type = ''warranty'',
          pol_content_markdown = ''Garansi resmi satu tahun.''\<rparr>,
        \<lparr>pol_id = ''p2'', pol_type = ''warranty'',
          pol_content_markdown = ''Garansi toko dua tahun.''\<rparr>]\<rparr>"

section \<open>Memory excerpt\<close>

lemma memory_rows_fail:
  "db_fails w (db_ops w) \<Longrightarrow> memory_rows w sid = ([], w\<lparr>db_ops := Suc (db_ops w)\<rparr>)"
  by (simp add: memory_rows_def db_roundtrip_def)

lemma memory_rows_ok:
  "\<not> db_fails w (db_ops w) \<Longrightarrow>
   memory_rows w sid =
     (rev (select_recent_messages (w\<lparr>db_ops := Suc (db_ops w)\<rparr>) sid), w\<lparr>db_ops := Suc (db_ops w)\<rparr>)"
  by (simp add: memory_rows_def db_roundtrip_def)

lemma select_recent_messages_db_ops [simp]:
  "select_recent_messages (w\<lparr>db_ops := n\<rparr>) sid = select_recent_messages w sid"
  by (simp add: select_recent_messages_def)

lemma get_memory_context_rows:
  "fst (get_memory_context w sid) = map (\<lambda>m. (m_role m, m_content m)) (fst (memory_rows w sid))"
  by (simp add: get_memory_context_def split: prod.splits)

lemma snd_get_memory_context:
  "snd (get_memory_context w sid) = w\<lparr>db_ops := Suc (db_ops w)\<rparr>"
  by (simp add: get_memory_context_def memory_rows_def db_roundtrip_def split: prod.splits bool.splits)

lemma length_select_recent:
  "0 \<le> max_exchanges w \<Longrightarrow> int (length (select_recent_messages w sid)) \<le> 2 * max_exchanges w"
  by (simp add: select_recent_messages_def sql_limit_def)

lemma sorted_rev_select_recent:
  "sorted (map (\<lambda>m. (m_turn_index m, m_created_at m)) (rev (select_recent_messages w sid)))"
proof -
  let ?f = "\<lambda>m. (m_turn_index m, m_created_at m)"
  let ?S = "filter (\<lambda>m. m_session_id m = sid) (messages w)"
  have s: "sorted (map ?f (sort_key ?f (rev ?S)))" by (rule sorted_sort_key)
  show ?thesis
  proof (cases "max_exchanges w * 2 < 0")
    case True
    then show ?thesis using s
      by (simp add: select_recent_messages_def sql_limit_def order_by_turn_desc_def)
  next
    case False
    have "sorted (drop (length (sort_key ?f (rev ?S)) - nat (max_exchanges w * 2))
        (map ?f (sort_key ?f (rev ?S))))"
      using s by (rule sorted_wrt_drop)
    then show ?thesis using False
      by (simp add: select_recent_messages_def sql_limit_def order_by_turn_desc_def rev_take drop_map)
  qed
qed

lemma sorted_memory_rows:
  "sorted (map (\<lambda>m. (m_turn_index m, m_created_at m)) (fst (memory_rows w sid)))"
  using sorted_rev_select_recent [of "w\<lparr>db_ops := Suc (db_ops w)\<rparr>" sid]
  by (cases "db_fails w (db_ops w)") (simp_all add: memory_rows_fail memory_rows_ok)

lemma length_memory_rows:
  "0 \<le> max_exchanges w \<Longrightarrow> int (length (fst (memory_rows w sid))) \<le> 2 * max_exchanges w"
  using length_select_recent [of "w\<lparr>db_ops := Suc (db_ops w)\<rparr>" sid]
  by (cases "db_fails w (db_ops w)") (simp_all add: memory_rows_fail memory_rows_ok)

lemma set_memory_rows:
  "set (fst (memory_rows w sid)) \<subseteq> {m \<in> set (messages w). m_session_id m = sid}"
proof (cases "db_fails w (db_ops w)")
  case True
  then show ?thesis by (simp add: memory_rows_fail)
next
  case False
  have lim: "set (sql_limit n xs) \<subseteq> set xs" for n and xs :: "message list"
    by (auto simp: sql_limit_def dest: in_set_takeD)
  have "set (select_recent_messages w sid) \<subseteq> {m \<in> set (messages w). m_session_id m = sid}"
    using lim [of "max_exchanges w * 2"
        "order_by_turn_desc (filter (\<lambda>m. m_session_id m = sid) (messages w))"]
    by (auto simp: select_recent_messages_def order_by_turn_desc_def)
  then show ?thesis using False by (simp add: memory_rows_ok)
qed

text \<open>
  C5. When the configured window is not negative, the memory excerpt of a session has at
  most \<open>2 * max_exchanges\<close> entries, whatever the message log holds and whether or not
  the query raises. Its entries are the role and content of rows that are in
  chronological order: ascending in turn index and, within a turn, in creation time. When
  the log's turn indices agree with its creation times, the rows are ascending in creation
  time alone.
\<close>

theorem memory_excerpt_bounded_and_chronological:
  assumes "0 \<le> max_exchanges w"
  shows "int (length (fst (get_memory_context w sid))) \<le> 2 * max_exchanges w
    \<and> fst (get_memory_context w sid)
        = map (\<lambda>m. (m_role m, m_content m)) (fst (memory_rows w sid))
    \<and> sorted_wrt (\<lambda>a b. m_turn_index a < m_turn_index b
                       \<or> (m_turn_index a = m_turn_index b \<and> m_created_at a \<le> m_created_at b))
        (fst (memory_rows w sid))
    \<and> ((\<forall>a \<in> set (messages w). \<forall>b \<in> set (messages w).
           m_session_id a = sid \<and> m_session_id b = sid \<and> m_turn_index a < m_turn_index b
             \<longrightarrow> m_created_at a \<le> m_created_at b)
        \<longrightarrow> sorted (map m_created_at (fst (memory_rows w sid))))"
proof -
  let ?rows = "fst (memory_rows w sid)"
  have lex: "sorted_wrt (\<lambda>a b. m_turn_index a < m_turn_index b
                       \<or> (m_turn_index a = m_turn_index b \<and> m_created_at a \<le> m_created_at b)) ?rows"
  proof -
    have "sorted_wrt (\<lambda>a b. (m_turn_index a, m_created_at a) \<le> (m_turn_index b, m_created_at b)) ?rows"
      using sorted_memory_rows [of w sid] by (simp only: sorted_map)
    then show ?thesis
      by (rule sorted_wrt_mono_rel [rotated]) (auto simp: less_eq_prod_def)
  qed
  have time: "sorted (map m_created_at ?rows)"
    if inv: "\<forall>a \<in> set (messages w). \<forall>b \<in> set (messages w).
           m_session_id a = sid \<and> m_session_id b = sid \<and> m_turn_index a < m_turn_index b
             \<longrightarrow> m_created_at a \<le> m_created_at b"
  proof -
    have "sorted_wrt (\<lambda>a b. m_created_at a \<le> m_created_at b) ?rows"
    proof (rule sorted_wrt_mono_rel [OF _ lex])
      fix a b assume "a \<in> set ?rows" "b \<in> set ?rows"
        and "m_turn_index a < m_turn_index b
              \<or> (m_turn_index a = m_turn_index b \<and> m_created_at a \<le> m_created_at b)"
      then show "m_created_at a \<le> m_created_at b"
        using inv set_memory_rows [of w sid] by blast
    qed
    then show ?thesis by (simp add: sorted_map)
  qed
  show ?thesis
    using length_memory_rows [OF assms, of sid] lex time
    by (simp add: get_memory_context_rows)
qed


theorem memory_excerpt_bounded_and_chronological_witness:
  "fst (get_memory_context logged_world ''s1'') = [(''user'', ''tiga''), (''assistant'', ''empat'')]
   \<and> int (length (fst (get_memory_context logged_world ''s1''))) \<le> 2 * max_exchanges logged_world
   \<and> sorted (map m_created_at (fst (memory_rows logged_world ''s1'')))"
proof -
  have h: "0 \<le> max_exchanges logged_world"
    by (simp add: logged_world_def)
  have inv: "\<forall>a \<in> set (messages logged_world). \<forall>b \<in> set (messages logged_world).
           m_session_id a = ''s1'' \<and> m_session_id b = ''s1'' \<and> m_turn_index a < m_turn_index b
             \<longrightarrow> m_created_at a \<le> m_created_at b"
    by (simp add: logged_world_def example_log_def)
  have v: "fst (get_memory_context logged_world ''s1'') = [(''user'', ''tiga''), (''assistant'', ''empat'')]"
    by code_simp
  show ?thesis
    using memory_excerpt_bounded_and_chronological [OF h, of "''s1''"] inv v by blast
qed

section \<open>Turn index and message writes\<close>

lemma get_next_turn_index_eq:
  "get_next_turn_index w sid =
     (if db_fails w (db_ops w) then Inl OperationalError
      else Inr ((case max_turn_index (filter (\<lambda>m. m_session_id m = sid) (messages w)) of
                   None \<Rightarrow> 0 | Some t \<Rightarrow> t) + 1),
      w\<lparr>db_ops := Suc (db_ops w)\<rparr>)"
  by (simp add: get_next_turn_index_def db_roundtrip_def split: option.splits)

lemma save_message_eq:
  "save_message w sid role content ti =
     (let msg = \<lparr>m_id = uuids w (uuid_reads w), m_session_id = sid, m_role = role,
                 m_content = content, m_turn_index = ti, m_created_at = clock w (clock_reads w)\<rparr>;
          w2 = w\<lparr>uuid_reads := Suc (uuid_reads w), clock_reads := Suc (clock_reads w)\<rparr>
      in if db_fails w (db_ops w) then (Inl OperationalError, w2\<lparr>db_ops := Suc (db_ops w)\<rparr>)
         else if db_fails w (Suc (db_ops w))
         then (Inl OperationalError, w2\<lparr>db_ops := Suc (Suc (db_ops w)), messages := messages w @ [msg]\<rparr>)
         else (Inr msg, w2\<lparr>db_ops := Suc (Suc (db_ops w)), messages := messages w @ [msg]\<rparr>))"
  by (simp add: save_message_def db_roundtrip_def uuid4_def utcnow_def Let_def)

lemma max_turn_index_Max:
  "rows \<noteq> [] \<Longrightarrow> max_turn_index rows = Some (Max (m_turn_index ` set rows))"
proof -
  have "fold (\<lambda>m a. max (m_turn_index m) a) rs a = Max (insert a (m_turn_index ` set rs))"
    for rs and a :: int
  proof (induction rs arbitrary: a)
    case Nil
    show ?case by simp
  next
    case (Cons r rs)
    have "Max (insert (max (m_turn_index r) a) (m_turn_index ` set rs))
        = Max (insert a (insert (m_turn_index r) (m_turn_index ` set rs)))"
      by (cases "rs = []") (simp_all add: max.commute max.left_commute max.assoc)
    then show ?case by (simp add: Cons.IH)
  qed
  then show "rows \<noteq> [] \<Longrightarrow> ?thesis"
    by (cases rows) (simp_all add: max_turn_index_def insert_commute)
qed

section \<open>The state through the tools and the chain\<close>

lemma snd_get_order_status_impl:
  "snd (get_order_status_impl oid w) = w\<lparr>db_ops := Suc (db_ops w)\<rparr>"
  by (simp add: get_order_status_impl_def db_roundtrip_def
      split: bool.splits sum.splits option.splits)

lemma snd_get_product_info_impl:
  "snd (get_product_info_impl name w) = w\<lparr>db_ops := Suc (db_ops w)\<rparr>"
  by (simp add: get_product_info_impl_def db_roundtrip_def split: bool.splits list.splits)

lemma snd_get_warranty_policy_impl:
  "snd (get_warranty_policy_impl w) = w\<lparr>db_ops := Suc (db_ops w)\<rparr>"
  by (simp add: get_warranty_policy_impl_def db_roundtrip_def
      split: bool.splits sum.splits option.splits)

lemma find_get_tools:
  "find (\<lambda>t. tool_name t = ''get_order_status'') get_tools = Some create_order_status_tool"
  "find (\<lambda>t. tool_name t = ''get_product_info'') get_tools = Some create_product_info_tool"
  "find (\<lambda>t. tool_name t = ''get_warranty_policy'') get_tools = Some create_warranty_policy_tool"
  by (simp_all add: get_tools_def create_order_status_tool_def create_product_info_tool_def
      create_warranty_policy_tool_def)

lemma call_order_tool:
  "call_tool get_tools ''get_order_status'' [oid] ''order_status'' w =
     (Inr ([''get_order_status''], [(''order_status'', fst (get_order_status_impl oid w))]),
      w\<lparr>db_ops := Suc (db_ops w)\<rparr>)"
  using snd_get_order_status_impl [of oid w]
  by (cases "get_order_status_impl oid w")
     (simp add: call_tool_def find_get_tools create_order_status_tool_def)

lemma call_product_tool:
  "call_tool get_tools ''get_product_info'' [name] ''product_info'' w =
     (Inr ([''get_product_info''], [(''product_info'', fst (get_product_info_impl name w))]),
      w\<lparr>db_ops := Suc (db_ops w)\<rparr>)"
  using snd_get_product_info_impl [of name w]
  by (cases "get_product_info_impl name w")
     (simp add: call_tool_def find_get_tools create_product_info_tool_def)

lemma call_warranty_tool:
  "call_tool get_tools ''get_warranty_policy'' [] ''warranty_policy'' w =
     (Inr ([''get_warranty_policy''], [(''warranty_policy'', fst (get_warranty_policy_impl w))]),
      w\<lparr>db_ops := Suc (db_ops w)\<rparr>)"
  using snd_get_warranty_policy_impl [of w]
  by (cases "get_warranty_policy_impl w")
     (simp add: call_tool_def find_get_tools create_warranty_policy_tool_def)

lemma dispatch_get_tools_state:
  "snd (dispatch_tools msg get_tools w) = w
   \<or> snd (dispatch_tools msg get_tools w) = w\<lparr>db_ops := Suc (db_ops w)\<rparr>"
  by (simp add: dispatch_tools_def Let_def call_order_tool call_product_tool call_warranty_tool)

lemma snd_invoke: "snd (invoke w msg ctx tools sid) = snd (dispatch_tools msg tools w)"
  by (simp add: invoke_def Let_def split: prod.splits sum.splits)

lemma invoke_get_tools_state:
  "snd (invoke w msg ctx get_tools sid) = w
   \<or> snd (invoke w msg ctx get_tools sid) = w\<lparr>db_ops := Suc (db_ops w)\<rparr>"
  using dispatch_get_tools_state [of msg w] by (simp add: snd_invoke)

section \<open>Turns\<close>

lemma get_next_turn_index_expected:
  "get_next_turn_index w sid =
     (if db_fails w (db_ops w) then Inl OperationalError else Inr (expected_turn_index w sid),
      w\<lparr>db_ops := Suc (db_ops w)\<rparr>)"
proof (cases "session_rows w sid = []")
  case True
  then show ?thesis
    by (simp add: get_next_turn_index_eq expected_turn_index_def session_rows_def
        max_turn_index_def)
next
  case False
  then show ?thesis
    using max_turn_index_Max [of "session_rows w sid"]
    by (simp add: get_next_turn_index_eq expected_turn_index_def session_rows_def)
qed

lemma get_memory_context_state:
  "get_memory_context w sid = (ctx, w') \<Longrightarrow> w' = w\<lparr>db_ops := Suc (db_ops w)\<rparr>"
  using snd_get_memory_context [of w sid] by simp

lemma process_message_begin_Inr:
  assumes "process_message_begin w sid msg = (Inr (ti, ctx), w3)"
  shows "ti = expected_turn_index w sid
    \<and> messages w3 = messages w @
         [\<lparr>m_id = uuids w (uuid_reads w), m_session_id = sid, m_role = ''user'',
           m_content = msg, m_turn_index = ti, m_created_at = clock w (clock_reads w)\<rparr>]
    \<and> db_fails w3 = db_fails w \<and> db_ops w3 = db_ops w + 4
    \<and> \<not> db_fails w (db_ops w) \<and> \<not> db_fails w (db_ops w + 1) \<and> \<not> db_fails w (db_ops w + 2)"
  using assms
  by (auto simp: process_message_begin_def get_next_turn_index_expected save_message_eq Let_def
      split: if_splits prod.splits dest!: get_memory_context_state)

lemma process_message_begin_ok:
  assumes "\<not> db_fails w (db_ops w)" "\<not> db_fails w (db_ops w + 1)" "\<not> db_fails w (db_ops w + 2)"
  shows "\<exists>ctx w3. process_message_begin w sid msg = (Inr (expected_turn_index w sid, ctx), w3)
           \<and> (db_fails w (db_ops w + 3) \<longrightarrow> ctx = [])"
  using assms
  by (auto simp: process_message_begin_def get_next_turn_index_expected save_message_eq Let_def
      get_memory_context_def memory_rows_def db_roundtrip_def eval_nat_numeral
      split: prod.splits bool.splits)


lemma save_message_Inr:
  assumes "save_message w sid role content ti = (Inr m, w')"
  shows "messages w' = messages w @ [m] \<and> m_session_id m = sid \<and> m_role m = role
    \<and> m_content m = content \<and> m_turn_index m = ti"
  using assms by (auto simp: save_message_eq Let_def split: if_splits)

lemma save_message_ok:
  assumes "\<not> db_fails w (db_ops w)" "\<not> db_fails w (Suc (db_ops w))"
  shows "\<exists>m w'. save_message w sid role content ti = (Inr m, w')"
  using assms by (simp add: save_message_eq Let_def)

lemma messages_invoke_get_tools:
  "messages (snd (invoke w msg ctx get_tools sid)) = messages w"
  using invoke_get_tools_state [of w msg ctx sid] by auto

lemma process_message_Inr:
  assumes "process_message w sid msg = (Inr resp, w')"
  shows "r_turn_index resp = expected_turn_index w sid
    \<and> (\<exists>um am. messages w' = messages w @ [um, am]
          \<and> m_session_id um = sid \<and> m_role um = ''user'' \<and> m_content um = msg
          \<and> m_turn_index um = r_turn_index resp
          \<and> m_session_id am = sid \<and> m_role am = ''assistant'' \<and> m_content am = r_message resp
          \<and> m_turn_index am = r_turn_index resp)"
proof -
  obtain ti ctx w3 where b: "process_message_begin w sid msg = (Inr (ti, ctx), w3)"
    using assms
    by (cases "process_message_begin w sid msg")
       (auto simp: process_message_def split: sum.splits)
  obtain lr w4 where i: "invoke w3 msg ctx get_tools sid = (lr, w4)"
    by (cases "invoke w3 msg ctx get_tools sid")
  obtain am where s: "save_message w4 sid ''assistant'' (cr_message lr) ti = (Inr am, w')"
    and r: "resp = \<lparr>r_message = cr_message lr, r_session_id = sid, r_turn_index = ti,
                     r_tool_calls = cr_tool_calls lr, r_timestamp = m_created_at am\<rparr>"
    using assms b i
    by (cases "save_message w4 sid ''assistant'' (cr_message lr) ti")
       (auto simp: process_message_def split: sum.splits)
  have m4: "messages w4 = messages w3"
    using messages_invoke_get_tools [of w3 msg ctx sid] i by simp
  show ?thesis
    using process_message_begin_Inr [OF b] save_message_Inr [OF s] m4 r by simp
qed

section \<open>A failing memory query\<close>

lemma process_message_ok:
  assumes "\<not> db_fails w (db_ops w)" "\<not> db_fails w (db_ops w + 1)" "\<not> db_fails w (db_ops w + 2)"
    and "\<not> db_fails w (db_ops w + 4)" "\<not> db_fails w (db_ops w + 5)" "\<not> db_fails w (db_ops w + 6)"
  shows "\<exists>resp. fst (process_message w sid msg) = Inr resp"
proof -
  obtain ctx w3 where b: "process_message_begin w sid msg = (Inr (expected_turn_index w sid, ctx), w3)"
    using process_message_begin_ok [OF assms(1-3)] by blast
  have w3: "db_fails w3 = db_fails w" "db_ops w3 = db_ops w + 4"
    using process_message_begin_Inr [OF b] by simp_all
  obtain lr w4 where i: "invoke w3 msg ctx get_tools sid = (lr, w4)"
    by (cases "invoke w3 msg ctx get_tools sid")
  have "w4 = w3 \<or> w4 = w3\<lparr>db_ops := Suc (db_ops w3)\<rparr>"
    using invoke_get_tools_state [of w3 msg ctx sid] i by simp
  then have "\<not> db_fails w4 (db_ops w4) \<and> \<not> db_fails w4 (Suc (db_ops w4))"
    using w3 assms(4-6) by (auto simp: eval_nat_numeral)
  then obtain am w5 where
    s: "save_message w4 sid ''assistant'' (cr_message lr) (expected_turn_index w sid) = (Inr am, w5)"
    using save_message_ok by blast
  show ?thesis
    using b i s by (simp add: process_message_def)
qed

text \<open>
  C10. The memory excerpt is a plain list: when the query of the message log raises, the
  excerpt is empty and nothing is raised. In a turn whose memory query is the only
  database round trip that raises, the excerpt is empty and the turn still returns a
  response.
\<close>

theorem memory_query_failure_gives_empty_excerpt:
  "(db_fails w (db_ops w) \<longrightarrow> get_memory_context w sid = ([], w\<lparr>db_ops := Suc (db_ops w)\<rparr>))
   \<and> ((\<forall>n. db_fails w n \<longleftrightarrow> n = db_ops w + 3) \<longrightarrow>
        (\<exists>ti w3. process_message_begin w sid msg = (Inr (ti, []), w3))
        \<and> (\<exists>resp. fst (process_message w sid msg) = Inr resp))"
proof (intro conjI impI)
  assume "db_fails w (db_ops w)"
  then show "get_memory_context w sid = ([], w\<lparr>db_ops := Suc (db_ops w)\<rparr>)"
    by (simp add: get_memory_context_def memory_rows_fail)
next
  assume f: "\<forall>n. db_fails w n \<longleftrightarrow> n = db_ops w + 3"
  then show "\<exists>ti w3. process_message_begin w sid msg = (Inr (ti, []), w3)"
    using process_message_begin_ok [of w sid msg] by auto
  show "\<exists>resp. fst (process_message w sid msg) = Inr resp"
    using f by (intro process_message_ok) simp_all
qed

theorem memory_query_failure_gives_empty_excerpt_witness:
  "fst (get_memory_context (memory_fault_world\<lparr>db_ops := 3\<rparr>) ''s1'') = []
   \<and> fst (process_message_begin memory_fault_world ''s1'' ''halo'') = Inr (1, [])
   \<and> (\<exists>resp. fst (process_message memory_fault_world ''s1'' ''halo'') = Inr resp)"
proof -
  have h1: "db_fails (memory_fault_world\<lparr>db_ops := 3\<rparr>) (db_ops (memory_fault_world\<lparr>db_ops := 3\<rparr>))"
    by (simp add: memory_fault_world_def empty_world_def)
  have h2: "\<forall>n. db_fails memory_fault_world n \<longleftrightarrow> n = db_ops memory_fault_world + 3"
    by (simp add: memory_fault_world_def empty_world_def)
  have v: "fst (process_message_begin memory_fault_world ''s1'' ''halo'') = Inr (1, [])"
    by code_simp
  show ?thesis
    using memory_query_failure_gives_empty_excerpt [of "memory_fault_world\<lparr>db_ops := 3\<rparr>" "''s1''"]
      memory_query_failure_gives_empty_excerpt [of memory_fault_world "''s1''" "''halo''"]
      h1 h2 v
    by simp
qed

section \<open>Turn indices in sequence\<close>

lemma expected_turn_index_after:
  assumes "messages w' = messages w @ [um, am]"
    and "m_session_id um = sid" "m_session_id am = sid"
    and "m_turn_index um = expected_turn_index w sid" "m_turn_index am = expected_turn_index w sid"
  shows "expected_turn_index w' sid = expected_turn_index w sid + 1"
proof -
  let ?S = "m_turn_index ` set (session_rows w sid)"
  let ?e = "expected_turn_index w sid"
  have rows: "session_rows w' sid = session_rows w sid @ [um, am]"
    using assms(1-3) by (simp add: session_rows_def)
  have "Max (insert ?e ?S) = ?e"
  proof (cases "session_rows w sid = []")
    case True
    then show ?thesis by simp
  next
    case False
    then have "?e = 1 + Max ?S" by (simp add: expected_turn_index_def)
    moreover have "finite ?S" "?S \<noteq> {}" using False by simp_all
    ultimately show ?thesis by (simp add: max_def)
  qed
  then have "Max (m_turn_index ` set (session_rows w' sid)) = ?e"
    using assms(4,5) by (simp add: rows insert_commute)
  then show ?thesis
    by (simp add: expected_turn_index_def [of w'] rows)
qed

lemma process_message_next:
  assumes "fst (process_message w sid msg) = Inr resp"
  shows "expected_turn_index (snd (process_message w sid msg)) sid = expected_turn_index w sid + 1"
proof -
  have p: "process_message w sid msg = (Inr resp, snd (process_message w sid msg))"
    using assms by (cases "process_message w sid msg") simp
  from process_message_Inr [OF p] obtain um am where
    "messages (snd (process_message w sid msg)) = messages w @ [um, am]"
    "m_session_id um = sid" "m_session_id am = sid"
    "m_turn_index um = expected_turn_index w sid" "m_turn_index am = expected_turn_index w sid"
    by auto
  then show ?thesis by (rule expected_turn_index_after)
qed

lemma run_turns_indices:
  "fst (run_turns w sid msgs) = map Inr resps \<Longrightarrow>
   map r_turn_index resps = map (\<lambda>i. expected_turn_index w sid + int i) [0..<length msgs]"
proof (induction msgs arbitrary: w resps)
  case Nil
  then show ?case by simp
next
  case (Cons m ms)
  obtain r w' where p: "process_message w sid m = (r, w')"
    by (cases "process_message w sid m")
  obtain rs w'' where q: "run_turns w' sid ms = (rs, w'')"
    by (cases "run_turns w' sid ms")
  from Cons.prems p q obtain resp rest where
    resps: "resps = resp # rest" and r: "r = Inr resp" and rs: "rs = map Inr rest"
    by (cases resps) auto
  have e: "r_turn_index resp = expected_turn_index w sid"
    using process_message_Inr [of w sid m resp w'] p r by simp
  have n: "expected_turn_index w' sid = expected_turn_index w sid + 1"
    using process_message_next [of w sid m resp] p r by simp
  have "map r_turn_index rest = map (\<lambda>i. expected_turn_index w' sid + int i) [0..<length ms]"
    using Cons.IH [of w' rest] q rs by simp
  then have "map r_turn_index rest
      = map (\<lambda>i. expected_turn_index w sid + int i) (map Suc [0..<length ms])"
    by (simp add: n add.assoc)
  then show ?case
    using e resps by (simp add: upt_conv_Cons map_Suc_upt del: upt_Suc)
qed

lemma db_fails_get_next_turn_index:
  "get_next_turn_index w sid = (r, w') \<Longrightarrow> db_fails w' = db_fails w"
  by (auto simp: get_next_turn_index_expected)

lemma db_fails_save_message:
  "save_message w sid role content ti = (r, w') \<Longrightarrow> db_fails w' = db_fails w"
  by (auto simp: save_message_eq Let_def split: if_splits)

lemma db_fails_get_memory_context:
  "get_memory_context w sid = (ctx, w') \<Longrightarrow> db_fails w' = db_fails w"
  by (auto dest!: get_memory_context_state)

lemma db_fails_invoke_get_tools:
  "invoke w msg ctx get_tools sid = (r, w') \<Longrightarrow> db_fails w' = db_fails w"
  using invoke_get_tools_state [of w msg ctx sid] by auto

lemma db_fails_process_message_begin:
  "process_message_begin w sid msg = (r, w') \<Longrightarrow> db_fails w' = db_fails w"
  by (auto simp: process_message_begin_def split: prod.splits sum.splits
      dest!: db_fails_get_next_turn_index db_fails_save_message db_fails_get_memory_context)

lemma db_fails_process_message:
  "process_message w sid msg = (r, w') \<Longrightarrow> db_fails w' = db_fails w"
  by (auto simp: process_message_def split: prod.splits sum.splits
      dest!: db_fails_process_message_begin db_fails_invoke_get_tools db_fails_save_message)

lemma run_turns_ok:
  "\<forall>n. \<not> db_fails w n \<Longrightarrow> \<exists>resps. fst (run_turns w sid msgs) = map Inr resps"
proof (induction msgs arbitrary: w)
  case Nil
  show ?case by simp
next
  case (Cons m ms)
  obtain r w' where p: "process_message w sid m = (r, w')"
    by (cases "process_message w sid m")
  obtain resp where r: "r = Inr resp"
    using process_message_ok [of w sid m] Cons.prems p by auto
  have "\<forall>n. \<not> db_fails w' n"
    using db_fails_process_message [OF p] Cons.prems by simp
  then obtain rest where "fst (run_turns w' sid ms) = map Inr rest"
    using Cons.IH by blast
  then have "fst (run_turns w sid (m # ms)) = map Inr (resp # rest)"
    using p r by (cases "run_turns w' sid ms") simp
  then show ?case by blast
qed

text \<open>
  C2. The turn index computed for a session is one more than the greatest turn index the
  session has in the log, and 1 when it has none. A call of \<open>process_message\<close> that
  returns a response has appended two rows to the log, the user message and then the
  assistant message, both of the session and both with the turn index of the response,
  and has raised the next turn index by one. So when every call of a sequence on one
  session returns a response and the session was empty, the turn indices are 1, 2, 3, ...
\<close>

theorem turn_index_is_next_and_shared:
  "(fst (get_next_turn_index w sid) = Inr ti \<longrightarrow> ti = expected_turn_index w sid)
   \<and> (fst (process_message w sid msg) = Inr resp \<longrightarrow>
        r_turn_index resp = expected_turn_index w sid
        \<and> (\<exists>um am. messages (snd (process_message w sid msg)) = messages w @ [um, am]
              \<and> m_session_id um = sid \<and> m_role um = ''user'' \<and> m_content um = msg
              \<and> m_turn_index um = r_turn_index resp
              \<and> m_session_id am = sid \<and> m_role am = ''assistant''
              \<and> m_content am = r_message resp \<and> m_turn_index am = r_turn_index resp)
        \<and> expected_turn_index (snd (process_message w sid msg)) sid = r_turn_index resp + 1)
   \<and> (session_rows w sid = [] \<and> fst (run_turns w sid msgs) = map Inr resps \<longrightarrow>
        map r_turn_index resps = map (\<lambda>i. 1 + int i) [0..<length msgs])"
proof (intro conjI impI)
  assume "fst (get_next_turn_index w sid) = Inr ti"
  then show "ti = expected_turn_index w sid"
    by (simp add: get_next_turn_index_expected split: if_splits)
next
  assume a: "fst (process_message w sid msg) = Inr resp"
  then have p: "process_message w sid msg = (Inr resp, snd (process_message w sid msg))"
    by (cases "process_message w sid msg") simp
  show "r_turn_index resp = expected_turn_index w sid"
    using process_message_Inr [OF p] by simp
  show "\<exists>um am. messages (snd (process_message w sid msg)) = messages w @ [um, am]
              \<and> m_session_id um = sid \<and> m_role um = ''user'' \<and> m_content um = msg
              \<and> m_turn_index um = r_turn_index resp
              \<and> m_session_id am = sid \<and> m_role am = ''assistant''
              \<and> m_content am = r_message resp \<and> m_turn_index am = r_turn_index resp"
    by (rule conjunct2 [OF process_message_Inr [OF p]])
  show "expected_turn_index (snd (process_message w sid msg)) sid = r_turn_index resp + 1"
    using process_message_next [OF a] process_message_Inr [OF p] by simp
next
  assume "session_rows w sid = [] \<and> fst (run_turns w sid msgs) = map Inr resps"
  then show "map r_turn_index resps = map (\<lambda>i. 1 + int i) [0..<length msgs]"
    using run_turns_indices [of w sid msgs resps] by (simp add: expected_turn_index_def)
qed


theorem turn_index_is_next_and_shared_witness:
  "fst (get_next_turn_index empty_world ''s1'') = Inr 1
   \<and> (\<exists>resp. fst (process_message empty_world ''s1'' ''halo'') = Inr resp \<and> r_turn_index resp = 1)
   \<and> expected_turn_index (snd (process_message empty_world ''s1'' ''halo'')) ''s1'' = 2
   \<and> map (map_sum id r_turn_index)
        (fst (run_turns empty_world ''s1'' [''halo'', ''apa kabar'', ''terima kasih'']))
       = [Inr 1, Inr 2, Inr 3]"
proof -
  let ?msgs = "[''halo'', ''apa kabar'', ''terima kasih'']"
  have nf: "\<forall>n. \<not> db_fails empty_world n"
    by (simp add: empty_world_def)
  have e: "expected_turn_index empty_world ''s1'' = 1" "session_rows empty_world ''s1'' = []"
    by (simp_all add: expected_turn_index_def session_rows_def empty_world_def)
  have h1: "fst (get_next_turn_index empty_world ''s1'') = Inr 1"
    using nf e by (simp add: get_next_turn_index_expected)
  obtain resp where h2: "fst (process_message empty_world ''s1'' ''halo'') = Inr resp"
    using process_message_ok [of empty_world "''s1''" "''halo''"] nf by auto
  obtain resps where h3: "fst (run_turns empty_world ''s1'' ?msgs) = map Inr resps"
    using run_turns_ok [OF nf] by blast
  note t = turn_index_is_next_and_shared [of empty_world "''s1''" 1 "''halo''" resp ?msgs resps]
  have a: "r_turn_index resp = 1"
    and b: "expected_turn_index (snd (process_message empty_world ''s1'' ''halo'')) ''s1'' = 2"
    using t h2 e by simp_all
  have "map r_turn_index resps = [1, 2, 3]"
    using t h3 e by (simp add: upt_rec)
  moreover have "map (map_sum id r_turn_index) (map Inr resps) = map Inr (map r_turn_index resps)"
    by simp
  ultimately have c: "map (map_sum id r_turn_index) (fst (run_turns empty_world ''s1'' ?msgs))
      = [Inr 1, Inr 2, Inr 3]"
    by (simp only: h3 list.map)
  show ?thesis
    using h1 h2 a b c by blast
qed

section \<open>The excerpt of a turn\<close>

lemma insort_key_greatest:
  "\<forall>y \<in> set ys. f y < f x \<Longrightarrow> insort_key f x ys = ys @ [x]"
  by (induction ys) auto

lemma turn_index_below_expected:
  "m \<in> set (session_rows w sid) \<Longrightarrow> m_turn_index m < expected_turn_index w sid"
proof -
  assume m: "m \<in> set (session_rows w sid)"
  then have "m_turn_index m \<le> Max (m_turn_index ` set (session_rows w sid))"
    by simp
  moreover have "session_rows w sid \<noteq> []" using m by auto
  ultimately show ?thesis by (simp add: expected_turn_index_def)
qed

lemma excerpt_ends_with_current_message:
  assumes "\<not> db_fails w (db_ops w)" "\<not> db_fails w (db_ops w + 1)" "\<not> db_fails w (db_ops w + 2)"
    and "\<not> db_fails w (db_ops w + 3)" and "1 \<le> max_exchanges w"
  shows "\<exists>older w3. process_message_begin w sid msg
           = (Inr (expected_turn_index w sid, older @ [(''user'', msg)]), w3)"
proof -
  let ?um = "\<lparr>m_id = uuids w (uuid_reads w), m_session_id = sid, m_role = ''user'',
              m_content = msg, m_turn_index = expected_turn_index w sid,
              m_created_at = clock w (clock_reads w)\<rparr>"
  let ?f = "\<lambda>m. (m_turn_index m, m_created_at m)"
  let ?S = "session_rows w sid"
  let ?n = "nat (max_exchanges w * 2)"
  have "\<forall>y \<in> set ?S. ?f y < ?f ?um"
    using turn_index_below_expected [of _ w sid] by (auto simp: less_prod_def)
  then have s: "insort_key ?f ?um (sort_key ?f (rev ?S)) = sort_key ?f (rev ?S) @ [?um]"
    by (intro insort_key_greatest) simp
  have n: "?n = Suc (?n - 1)" using assms(5) by simp
  have "rev (take ?n (rev (insort_key ?f ?um (sort_key ?f (rev ?S)))))
      = rev (take (?n - 1) (rev (sort_key ?f (rev ?S)))) @ [?um]"
    by (subst n) (simp add: s)
  then show ?thesis
    using assms
    by (simp add: process_message_begin_def get_next_turn_index_expected save_message_eq Let_def
        get_memory_context_def memory_rows_def db_roundtrip_def eval_nat_numeral
        select_recent_messages_def sql_limit_def order_by_turn_desc_def session_rows_def)
qed

text \<open>
  C1. On an empty message log, the turn for the text \<open>halo\<close> in session \<open>s1\<close> computes
  a memory excerpt that holds the user message of this very turn: the message is
  committed before the excerpt is read.
\<close>

theorem excerpt_holds_current_message:
  "fst (process_message_begin empty_world ''s1'' ''halo'') = Inr (1, [(''user'', ''halo'')])"
  by code_simp

section \<open>The summary line\<close>

text \<open>
  C4. A backend answer that has the marker in its first line and a further line after it
  is returned as it is, and its last line does not begin with the marker.
\<close>

theorem reply_without_final_summary_line:
  "cr_message (fst (invoke marker_inside_world ''halo'' [] get_tools ''s1''))
     = ''Ringkas: Halo.\<newline>Ada lagi yang bisa saya bantu?''
   \<and> \<not> ends_with_summary_line (cr_message (fst (invoke marker_inside_world ''halo'' [] get_tools ''s1'')))"
  by code_simp

section \<open>Intent routing\<close>

lemma call_tool_cases:
  "(\<exists>e. fst (call_tool tools name args key w) = Inl e)
   \<or> call_tool tools name args key w = (Inr ([], []), w)
   \<or> (\<exists>r. fst (call_tool tools name args key w) = Inr ([name], [(key, r)]))"
proof (cases "find (\<lambda>t. tool_name t = name) tools")
  case None
  then show ?thesis by (simp add: call_tool_def)
next
  case (Some t)
  then show ?thesis
    by (cases "tool_func t args w") (auto simp: call_tool_def split: sum.splits)
qed

lemma dispatch_tools_cases:
  "(\<exists>e. fst (dispatch_tools msg tools w) = Inl e)
   \<or> dispatch_tools msg tools w = (Inr ([], []), w)
   \<or> (\<exists>name key r. fst (dispatch_tools msg tools w) = Inr ([name], [(key, r)])
         \<and> name \<in> {''get_order_status'', ''get_product_info'', ''get_warranty_policy''})"
proof -
  note c = call_tool_cases [of tools _ _ _ w]
  show ?thesis
    unfolding dispatch_tools_def Let_def
    using c [of "''get_order_status''" "[extract_order_id msg]" "''order_status''"]
      c [of "''get_product_info''" "[extract_product_name msg]" "''product_info''"]
      c [of "''get_warranty_policy''" "[]" "''warranty_policy''"]
    by (auto simp del: fst_conv)
qed

lemma invoke_tool_calls:
  "cr_tool_calls (fst (invoke w msg ctx tools sid)) =
     (case fst (dispatch_tools msg tools w) of Inl e \<Rightarrow> [] | Inr (calls, results) \<Rightarrow> calls)"
  by (simp add: invoke_def Let_def split: prod.splits sum.splits)

lemma invoke_no_tool:
  "dispatch_tools msg tools w = (Inr ([], []), w) \<Longrightarrow>
   invoke w msg ctx tools sid =
     (\<lparr>cr_message = ensure_summary (generate_regular_response w msg (format_memory_for_prompt ctx)),
       cr_tool_calls = [], cr_session_id = sid\<rparr>, w)"
  by (simp add: invoke_def Let_def)

text \<open>
  C3. The three intents are tried in the order order status, product info, warranty
  policy, and the first whose keywords match decides the turn. A text with an order
  keyword runs the order branch whatever else it matches: the dispatch is the call of the
  order-status tool with the extracted order id, or no call when no id is extracted; in
  particular this holds for a text that also has a product keyword. A text with no order
  keyword and a product keyword runs the product branch, also when it has a warranty
  keyword: the call of the product tool with the extracted name, or no call when the name
  is empty. A text with neither and a warranty keyword calls the warranty tool. A text
  with no keyword calls none. With the tools of \<open>get_tools\<close> the list of tool calls is
  the one name of the branch, or empty. For every text, every list of tools and every
  state, the list of tool calls is empty or holds exactly one of the three tool names.
\<close>

theorem order_intent_wins_and_one_tool_at_most:
  "(should_call_order_tool msg \<and> should_call_product_tool msg \<longrightarrow>
      dispatch_tools msg tools w =
        (if extract_order_id msg \<noteq> []
         then call_tool tools ''get_order_status'' [extract_order_id msg] ''order_status'' w
         else (Inr ([], []), w))
      \<and> (cr_tool_calls (fst (invoke w msg ctx tools sid)) = []
           \<or> cr_tool_calls (fst (invoke w msg ctx tools sid)) = [''get_order_status''])
      \<and> cr_tool_calls (fst (invoke w msg ctx get_tools sid)) =
           (if extract_order_id msg \<noteq> [] then [''get_order_status''] else []))
   \<and> (should_call_order_tool msg \<longrightarrow>
      dispatch_tools msg tools w =
        (if extract_order_id msg \<noteq> []
         then call_tool tools ''get_order_status'' [extract_order_id msg] ''order_status'' w
         else (Inr ([], []), w))
      \<and> cr_tool_calls (fst (invoke w msg ctx get_tools sid)) =
           (if extract_order_id msg \<noteq> [] then [''get_order_status''] else []))
   \<and> (\<not> should_call_order_tool msg \<and> should_call_product_tool msg \<longrightarrow>
      dispatch_tools msg tools w =
        (if extract_product_name msg \<noteq> []
         then call_tool tools ''get_product_info'' [extract_product_name msg] ''product_info'' w
         else (Inr ([], []), w))
      \<and> cr_tool_calls (fst (invoke w msg ctx get_tools sid)) =
           (if extract_product_name msg \<noteq> [] then [''get_product_info''] else []))
   \<and> (\<not> should_call_order_tool msg \<and> \<not> should_call_product_tool msg
       \<and> should_call_warranty_tool msg \<longrightarrow>
      dispatch_tools msg tools w = call_tool tools ''get_warranty_policy'' [] ''warranty_policy'' w
      \<and> cr_tool_calls (fst (invoke w msg ctx get_tools sid)) = [''get_warranty_policy''])
   \<and> (\<not> should_call_order_tool msg \<and> \<not> should_call_product_tool msg
       \<and> \<not> should_call_warranty_tool msg \<longrightarrow>
      dispatch_tools msg tools w = (Inr ([], []), w)
      \<and> cr_tool_calls (fst (invoke w msg ctx tools sid)) = [])
   \<and> (cr_tool_calls (fst (invoke w msg ctx tools sid)) = []
        \<or> cr_tool_calls (fst (invoke w msg ctx tools sid)) = [''get_order_status'']
        \<or> cr_tool_calls (fst (invoke w msg ctx tools sid)) = [''get_product_info'']
        \<or> cr_tool_calls (fst (invoke w msg ctx tools sid)) = [''get_warranty_policy''])"
proof -
  have order: "dispatch_tools msg tools w =
        (if extract_order_id msg \<noteq> []
         then call_tool tools ''get_order_status'' [extract_order_id msg] ''order_status'' w
         else (Inr ([], []), w))
      \<and> cr_tool_calls (fst (invoke w msg ctx get_tools sid)) =
           (if extract_order_id msg \<noteq> [] then [''get_order_status''] else [])"
    if "should_call_order_tool msg"
    using that by (simp add: invoke_tool_calls dispatch_tools_def Let_def call_order_tool)
  have order_any: "cr_tool_calls (fst (invoke w msg ctx tools sid)) = []
           \<or> cr_tool_calls (fst (invoke w msg ctx tools sid)) = [''get_order_status'']"
    if "should_call_order_tool msg"
    using call_tool_cases [of tools "''get_order_status''" "[extract_order_id msg]" "''order_status''" w]
      order [OF that]
    by (auto simp: invoke_tool_calls)
  have product: "dispatch_tools msg tools w =
        (if extract_product_name msg \<noteq> []
         then call_tool tools ''get_product_info'' [extract_product_name msg] ''product_info'' w
         else (Inr ([], []), w))
      \<and> cr_tool_calls (fst (invoke w msg ctx get_tools sid)) =
           (if extract_product_name msg \<noteq> [] then [''get_product_info''] else [])"
    if "\<not> should_call_order_tool msg" "should_call_product_tool msg"
    using that by (simp add: invoke_tool_calls dispatch_tools_def Let_def call_product_tool)
  have warranty: "dispatch_tools msg tools w
        = call_tool tools ''get_warranty_policy'' [] ''warranty_policy'' w
      \<and> cr_tool_calls (fst (invoke w msg ctx get_tools sid)) = [''get_warranty_policy'']"
    if "\<not> should_call_order_tool msg" "\<not> should_call_product_tool msg"
      "should_call_warranty_tool msg"
    using that by (simp add: invoke_tool_calls dispatch_tools_def Let_def call_warranty_tool)
  have none: "dispatch_tools msg tools w = (Inr ([], []), w)
      \<and> cr_tool_calls (fst (invoke w msg ctx tools sid)) = []"
    if "\<not> should_call_order_tool msg" "\<not> should_call_product_tool msg"
      "\<not> should_call_warranty_tool msg"
    using that by (simp add: invoke_tool_calls dispatch_tools_def)
  have one: "cr_tool_calls (fst (invoke w msg ctx tools sid)) = []
        \<or> cr_tool_calls (fst (invoke w msg ctx tools sid)) = [''get_order_status'']
        \<or> cr_tool_calls (fst (invoke w msg ctx tools sid)) = [''get_product_info'']
        \<or> cr_tool_calls (fst (invoke w msg ctx tools sid)) = [''get_warranty_policy'']"
    using dispatch_tools_cases [of msg tools w] by (auto simp: invoke_tool_calls)
  show ?thesis
    using order order_any product warranty none one by blast
qed

theorem order_intent_wins_and_one_tool_at_most_witness:
  "should_call_order_tool ''Status garansi pesanan laptop saya? ID: ORD123''
   \<and> should_call_product_tool ''Status garansi pesanan laptop saya? ID: ORD123''
   \<and> should_call_warranty_tool ''Status garansi pesanan laptop saya? ID: ORD123''
   \<and> cr_tool_calls (fst (invoke empty_world ''Status garansi pesanan laptop saya? ID: ORD123'' []
                           get_tools ''s1'')) = [''get_order_status'']
   \<and> \<not> should_call_order_tool ''Apa garansi laptop gaming X?''
   \<and> should_call_product_tool ''Apa garansi laptop gaming X?''
   \<and> should_call_warranty_tool ''Apa garansi laptop gaming X?''
   \<and> cr_tool_calls (fst (invoke empty_world ''Apa garansi laptop gaming X?'' [] get_tools ''s1''))
       = [''get_product_info'']
   \<and> cr_tool_calls (fst (invoke empty_world ''Bagaimana cara klaim garansi?'' [] get_tools ''s1''))
       = [''get_warranty_policy'']
   \<and> cr_tool_calls (fst (invoke empty_world ''halo'' [] get_tools ''s1'')) = []"
proof -
  have k1: "should_call_order_tool ''Status garansi pesanan laptop saya? ID: ORD123''
      \<and> should_call_product_tool ''Status garansi pesanan laptop saya? ID: ORD123''
      \<and> should_call_warranty_tool ''Status garansi pesanan laptop saya? ID: ORD123''"
    by code_simp
  have x1: "extract_order_id ''Status garansi pesanan laptop saya? ID: ORD123'' = ''ORD123''"
    by code_simp
  have k2: "\<not> should_call_order_tool ''Apa garansi laptop gaming X?''
      \<and> should_call_product_tool ''Apa garansi laptop gaming X?''
      \<and> should_call_warranty_tool ''Apa garansi laptop gaming X?''"
    by code_simp
  have x2: "extract_product_name ''Apa garansi laptop gaming X?'' = ''gaming X''"
    by code_simp
  have k3: "\<not> should_call_order_tool ''Bagaimana cara klaim garansi?''
      \<and> \<not> should_call_product_tool ''Bagaimana cara klaim garansi?''
      \<and> should_call_warranty_tool ''Bagaimana cara klaim garansi?''"
    by code_simp
  have k4: "\<not> should_call_order_tool ''halo'' \<and> \<not> should_call_product_tool ''halo''
      \<and> \<not> should_call_warranty_tool ''halo''"
    by code_simp
  note t = order_intent_wins_and_one_tool_at_most [where tools = get_tools and w = empty_world
      and ctx = "[]" and sid = "''s1''"]
  have r1: "cr_tool_calls (fst (invoke empty_world ''Status garansi pesanan laptop saya? ID: ORD123'' []
                           get_tools ''s1'')) = [''get_order_status'']"
    using t [of "''Status garansi pesanan laptop saya? ID: ORD123''"] k1 x1 by simp
  have r2: "cr_tool_calls (fst (invoke empty_world ''Apa garansi laptop gaming X?'' [] get_tools ''s1''))
       = [''get_product_info'']"
    using t [of "''Apa garansi laptop gaming X?''"] k2 x2 by simp
  have r3: "cr_tool_calls (fst (invoke empty_world ''Bagaimana cara klaim garansi?'' [] get_tools ''s1''))
       = [''get_warranty_policy'']"
    using t [of "''Bagaimana cara klaim garansi?''"] k3 by simp
  have r4: "cr_tool_calls (fst (invoke empty_world ''halo'' [] get_tools ''s1'')) = []"
    using t [of "''halo''"] k4 by simp
  show ?thesis
    using k1 k2 r1 r2 r3 r4 by simp
qed

text \<open>
  C7. When a text matches the order intent and no order id is extracted from it, no tool
  is called: the reply is the one of the generative path, the list of tool calls is empty
  and the state is unchanged.
\<close>

theorem extraction_miss_calls_no_tool:
  assumes "should_call_order_tool msg" and "extract_order_id msg = []"
  shows "invoke w msg ctx tools sid =
     (\<lparr>cr_message = ensure_summary (generate_regular_response w msg (format_memory_for_prompt ctx)),
       cr_tool_calls = [], cr_session_id = sid\<rparr>, w)"
  using assms by (intro invoke_no_tool) (simp add: dispatch_tools_def)

theorem extraction_miss_calls_no_tool_witness:
  "should_call_order_tool ''status pesanan saya'' \<and> extract_order_id ''status pesanan saya'' = []
   \<and> invoke empty_world ''status pesanan saya'' [] get_tools ''s1'' =
       (\<lparr>cr_message = ''Halo\<newline>\<newline>Ringkas: Sudah memberikan jawaban sesuai pertanyaan Anda.'',
         cr_tool_calls = [], cr_session_id = ''s1''\<rparr>, empty_world)"
proof -
  have h1: "should_call_order_tool ''status pesanan saya''" by code_simp
  have h2: "extract_order_id ''status pesanan saya'' = []" by code_simp
  have g: "generate_regular_response empty_world ''status pesanan saya'' (format_memory_for_prompt [])
      = ''Halo''"
    by (simp add: generate_regular_response_def empty_world_def)
  have e: "ensure_summary ''Halo'' = ''Halo\<newline>\<newline>Ringkas: Sudah memberikan jawaban sesuai pertanyaan Anda.''"
    by code_simp
  show ?thesis
    using extraction_miss_calls_no_tool [OF h1 h2, of empty_world "[]" get_tools "''s1''"] h1 h2
    by (simp add: g e)
qed

section \<open>Generation failure\<close>

lemma fallback_has_marker: "contains ''Ringkas:'' FALLBACK_PROMPT"
  by code_simp

lemma ensure_summary_marked: "contains ''Ringkas:'' s \<Longrightarrow> ensure_summary s = s"
  by (simp add: ensure_summary_def)

lemma ensure_summary_fallback: "ensure_summary FALLBACK_PROMPT = FALLBACK_PROMPT"
  by (rule ensure_summary_marked [OF fallback_has_marker])

lemma llm_process_message_begin:
  "process_message_begin w sid msg = (r, w') \<Longrightarrow> llm w' = llm w"
  by (auto simp: process_message_begin_def get_next_turn_index_expected save_message_eq Let_def
      split: prod.splits sum.splits if_splits dest!: get_memory_context_state)

lemma dispatch_no_intent:
  "\<not> should_call_order_tool msg \<Longrightarrow> \<not> should_call_product_tool msg \<Longrightarrow>
   \<not> should_call_warranty_tool msg \<Longrightarrow> dispatch_tools msg tools w = (Inr ([], []), w)"
  by (simp add: dispatch_tools_def)

lemma invoke_generation_failure:
  assumes "cr_tool_calls (fst (invoke w msg ctx tools sid)) = []"
    and "llm w (format_prompt_with_context msg (format_memory_for_prompt ctx)) msg = Inl e"
  shows "cr_message (fst (invoke w msg ctx tools sid)) = FALLBACK_PROMPT"
proof -
  consider e' where "fst (dispatch_tools msg tools w) = Inl e'"
    | "dispatch_tools msg tools w = (Inr ([], []), w)"
    | name key r where "fst (dispatch_tools msg tools w) = Inr ([name], [(key, r)])"
    using dispatch_tools_cases [of msg tools w] by blast
  then show ?thesis
  proof cases
    case 1
    then show ?thesis
      by (cases "dispatch_tools msg tools w")
         (simp add: invoke_def Let_def get_fallback_response_def)
  next
    case 2
    then show ?thesis
      using assms(2)
      by (simp add: invoke_no_tool generate_regular_response_def get_fallback_response_def
          ensure_summary_fallback)
  next
    case 3
    then show ?thesis using assms(1) by (simp add: invoke_tool_calls)
  qed
qed

lemma process_message_generation_failure:
  assumes "\<not> should_call_order_tool msg" "\<not> should_call_product_tool msg"
    "\<not> should_call_warranty_tool msg"
    and l: "\<forall>p. llm w p msg = Inl e" and nf: "\<forall>n. \<not> db_fails w n"
  shows "\<exists>resp. fst (process_message w sid msg) = Inr resp \<and> r_message resp = FALLBACK_PROMPT
           \<and> r_tool_calls resp = []"
proof -
  obtain ctx w3 where b: "process_message_begin w sid msg = (Inr (expected_turn_index w sid, ctx), w3)"
    using process_message_begin_ok [of w sid msg] nf by auto
  have w3: "db_fails w3 = db_fails w" "llm w3 = llm w"
    using process_message_begin_Inr [OF b] llm_process_message_begin [OF b] by simp_all
  have d: "dispatch_tools msg get_tools w3 = (Inr ([], []), w3)"
    using assms(1-3) by (rule dispatch_no_intent)
  have i: "invoke w3 msg ctx get_tools sid =
      (\<lparr>cr_message = FALLBACK_PROMPT, cr_tool_calls = [], cr_session_id = sid\<rparr>, w3)"
    using l w3
    by (simp add: invoke_no_tool [OF d] generate_regular_response_def get_fallback_response_def
        ensure_summary_fallback)
  obtain am w5 where
    s: "save_message w3 sid ''assistant'' FALLBACK_PROMPT (expected_turn_index w sid) = (Inr am, w5)"
    using save_message_ok [of w3 sid "''assistant''" FALLBACK_PROMPT "expected_turn_index w sid"] w3 nf
    by auto
  show ?thesis
    using b i s by (simp add: process_message_def)
qed

text \<open>
  C8. When a turn calls no tool and the text-generation backend raises, the reply of
  \<open>invoke\<close> is the fixed fallback message. For a text that matches no intent, with a
  backend that raises and a database that does not fail, \<open>process_message\<close> returns a
  response whose message is the fallback and whose list of tool calls is empty. The
  fallback message names the three supported intents.
\<close>

theorem generation_failure_gives_fallback:
  "(cr_tool_calls (fst (invoke w msg ctx tools sid)) = []
      \<and> llm w (format_prompt_with_context msg (format_memory_for_prompt ctx)) msg = Inl e
     \<longrightarrow> cr_message (fst (invoke w msg ctx tools sid)) = FALLBACK_PROMPT)
   \<and> (\<not> should_call_order_tool msg \<and> \<not> should_call_product_tool msg
       \<and> \<not> should_call_warranty_tool msg \<and> (\<forall>p. llm w p msg = Inl e) \<and> (\<forall>n. \<not> db_fails w n)
     \<longrightarrow> (\<exists>resp. fst (process_message w sid msg) = Inr resp \<and> r_message resp = FALLBACK_PROMPT
            \<and> r_tool_calls resp = []))
   \<and> contains ''Status Pesanan'' FALLBACK_PROMPT
   \<and> contains ''Informasi Produk'' FALLBACK_PROMPT
   \<and> contains ''Klaim Garansi'' FALLBACK_PROMPT"
proof -
  have c: "contains ''Status Pesanan'' FALLBACK_PROMPT \<and> contains ''Informasi Produk'' FALLBACK_PROMPT
      \<and> contains ''Klaim Garansi'' FALLBACK_PROMPT"
    by code_simp
  show ?thesis
    using invoke_generation_failure [of w msg ctx tools sid e]
      process_message_generation_failure [of msg w e sid] c
    by blast
qed

theorem generation_failure_gives_fallback_witness:
  "cr_tool_calls (fst (invoke backend_down_world ''halo'' [] get_tools ''s1'')) = []
   \<and> cr_message (fst (invoke backend_down_world ''halo'' [] get_tools ''s1'')) = FALLBACK_PROMPT
   \<and> (\<exists>resp. fst (process_message backend_down_world ''s1'' ''halo'') = Inr resp
         \<and> r_message resp = FALLBACK_PROMPT \<and> r_tool_calls resp = [])"
proof -
  have k: "\<not> should_call_order_tool ''halo'' \<and> \<not> should_call_product_tool ''halo''
      \<and> \<not> should_call_warranty_tool ''halo''"
    by code_simp
  have h1: "cr_tool_calls (fst (invoke backend_down_world ''halo'' [] get_tools ''s1'')) = []"
    using k by (simp add: invoke_tool_calls dispatch_no_intent)
  have h2: "\<forall>p. llm backend_down_world p ''halo'' = Inl BackendError"
    by (simp add: backend_down_world_def empty_world_def)
  have h3: "\<forall>n. \<not> db_fails backend_down_world n"
    by (simp add: backend_down_world_def empty_world_def)
  show ?thesis
    using generation_failure_gives_fallback
      [of backend_down_world "''halo''" "[]" get_tools "''s1''" BackendError] k h1 h2 h3
    by simp
qed

section \<open>Order status\<close>

lemma join_contains_part:
  "p \<in> set ps \<Longrightarrow> \<exists>a b. join sep ps = a @ p @ b"
proof (induction sep ps rule: join.induct)
  case (1 sep)
  then show ?case by simp
next
  case (2 sep q)
  then have "join sep [q] = [] @ p @ []" by simp
  then show ?case by blast
next
  case (3 sep q r rs)
  show ?case
  proof (cases "p = q")
    case True
    then have "join sep (q # r # rs) = [] @ p @ (sep @ join sep (r # rs))" by simp
    then show ?thesis by blast
  next
    case False
    then obtain a b where "join sep (r # rs) = a @ p @ b"
      using 3 by auto
    then have "join sep (q # r # rs) = (q @ sep @ a) @ p @ b" by simp
    then show ?thesis by blast
  qed
qed

lemma contains_part:
  assumes "p \<in> set ps" and "contains c p"
  shows "contains c (join sep ps @ tail)"
proof -
  obtain a b where j: "join sep ps = a @ p @ b"
    using join_contains_part [OF assms(1)] by blast
  obtain u v where p: "p = u @ c @ v"
    using assms(2) by (auto simp: contains_def sublist_def)
  have "join sep ps @ tail = (a @ u) @ c @ (v @ b @ tail)"
    by (simp add: j p)
  then show ?thesis
    unfolding contains_def sublist_def by blast
qed

lemma get_order_status_impl_found:
  assumes "\<not> db_fails w (db_ops w)" and "filter (\<lambda>odr. o_id odr = oid) (orders w) = [odr]"
  shows "fst (get_order_status_impl oid w) = join ''. '' (order_response_parts oid odr) @ ''.''"
  using assms by (simp add: get_order_status_impl_def db_roundtrip_def scalar_one_or_none_def)

lemma status_text_known:
  "status_text ''pending'' = ''sedang diproses''"
  "status_text ''confirmed'' = ''telah dikonfirmasi''"
  "status_text ''shipped'' = ''sedang dalam pengiriman''"
  "status_text ''delivered'' = ''telah sampai tujuan''"
  "status_text ''cancelled'' = ''telah dibatalkan''"
  by (simp_all add: status_text_def status_messages_def)

lemma status_text_other:
  "s \<notin> set [''pending'', ''confirmed'', ''shipped'', ''delivered'', ''cancelled''] \<Longrightarrow>
   status_text s = s"
  by (simp add: status_text_def status_messages_def)

lemma carrier_part_iff:
  "list_ex (prefix ''via '') (order_response_parts oid odr)
     \<longleftrightarrow> truthy (o_carrier odr) \<and> truthy (o_tracking_number odr)"
  by (simp add: order_response_parts_def)

lemma eta_part_iff:
  "list_ex (prefix ''dengan estimasi tiba '') (order_response_parts oid odr)
     \<longleftrightarrow> o_eta_date odr \<noteq> None \<and> (o_status odr = ''confirmed'' \<or> o_status odr = ''shipped'')"
  by (simp add: order_response_parts_def)


lemma contains_refl_part: "contains c (a @ c @ b)"
  unfolding contains_def sublist_def by blast

text \<open>
  C6. For an order that the lookup finds (the query does not raise and exactly one row
  has the id), the message is the parts of the answer joined by \<open>". "\<close> and closed by a
  full stop, and it begins with \<open>Pesanan\<close>, the id asked for and the status phrase. The
  five known status codes have their fixed phrases and any other code stands for itself.
  The part with carrier and tracking number is there exactly when both are present
  (neither missing nor empty); the part with the estimated arrival is there exactly
  when the order has one and its status is \<open>confirmed\<close> or \<open>shipped\<close>. So for a shipped
  order with carrier and tracking number the message contains the status phrase, the
  carrier, the tracking number and the estimated date if there is one, and for a
  delivered order no part is an estimate of arrival.
\<close>

theorem order_status_message:
  assumes "\<not> db_fails w (db_ops w)" and "filter (\<lambda>odr. o_id odr = oid) (orders w) = [odr]"
  shows "fst (get_order_status_impl oid w) = join ''. '' (order_response_parts oid odr) @ ''.''
    \<and> prefix (''Pesanan '' @ oid @ '' '' @ status_text (o_status odr)) (fst (get_order_status_impl oid w))
    \<and> status_text ''pending'' = ''sedang diproses''
    \<and> status_text ''confirmed'' = ''telah dikonfirmasi''
    \<and> status_text ''shipped'' = ''sedang dalam pengiriman''
    \<and> status_text ''delivered'' = ''telah sampai tujuan''
    \<and> status_text ''cancelled'' = ''telah dibatalkan''
    \<and> (s \<notin> set [''pending'', ''confirmed'', ''shipped'', ''delivered'', ''cancelled'']
         \<longrightarrow> status_text s = s)
    \<and> (list_ex (prefix ''via '') (order_response_parts oid odr)
         \<longleftrightarrow> truthy (o_carrier odr) \<and> truthy (o_tracking_number odr))
    \<and> (list_ex (prefix ''dengan estimasi tiba '') (order_response_parts oid odr)
         \<longleftrightarrow> o_eta_date odr \<noteq> None \<and> (o_status odr = ''confirmed'' \<or> o_status odr = ''shipped''))
    \<and> (o_status odr = ''shipped'' \<and> truthy (o_carrier odr) \<and> truthy (o_tracking_number odr)
         \<longrightarrow> contains ''sedang dalam pengiriman'' (fst (get_order_status_impl oid w))
           \<and> contains (the (o_carrier odr)) (fst (get_order_status_impl oid w))
           \<and> contains (the (o_tracking_number odr)) (fst (get_order_status_impl oid w))
           \<and> (o_eta_date odr \<noteq> None
                \<longrightarrow> contains (strftime_date (the (o_eta_date odr))) (fst (get_order_status_impl oid w))))
    \<and> (o_status odr = ''delivered''
         \<longrightarrow> \<not> list_ex (prefix ''dengan estimasi tiba '') (order_response_parts oid odr))"
proof -
  let ?parts = "order_response_parts oid odr"
  let ?m = "fst (get_order_status_impl oid w)"
  have m: "?m = join ''. '' ?parts @ ''.''"
    using assms by (rule get_order_status_impl_found)
  obtain rest where parts: "?parts = (''Pesanan '' @ oid @ '' '' @ status_text (o_status odr)) # rest"
    by (simp add: order_response_parts_def)
  have "\<exists>t. join ''. '' ?parts = (''Pesanan '' @ oid @ '' '' @ status_text (o_status odr)) @ t"
    unfolding parts by (cases rest) simp_all
  then have p: "prefix (''Pesanan '' @ oid @ '' '' @ status_text (o_status odr)) ?m"
    unfolding m prefix_def by auto
  have ship: "contains ''sedang dalam pengiriman'' ?m
           \<and> contains (the (o_carrier odr)) ?m
           \<and> contains (the (o_tracking_number odr)) ?m
           \<and> (o_eta_date odr \<noteq> None \<longrightarrow> contains (strftime_date (the (o_eta_date odr))) ?m)"
    if s: "o_status odr = ''shipped''" "truthy (o_carrier odr)" "truthy (o_tracking_number odr)"
  proof -
    let ?via = "''via '' @ the (o_carrier odr) @ '' dengan nomor resi '' @ the (o_tracking_number odr)"
    have h: "hd ?parts \<in> set ?parts" "contains ''sedang dalam pengiriman'' (hd ?parts)"
      using s(1) contains_refl_part [of "''sedang dalam pengiriman''" "''Pesanan '' @ oid @ '' ''" "[]"]
      by (simp_all add: parts status_text_known)
    have v: "?via \<in> set ?parts"
      using s by (simp add: order_response_parts_def)
    have c: "contains (the (o_carrier odr)) ?via"
      using contains_refl_part [of "the (o_carrier odr)" "''via ''"] by simp
    have t: "contains (the (o_tracking_number odr)) ?via"
      using contains_refl_part [of "the (o_tracking_number odr)"
          "''via '' @ the (o_carrier odr) @ '' dengan nomor resi ''" "[]"] by simp
    have e: "contains (strftime_date (the (o_eta_date odr))) ?m" if "o_eta_date odr \<noteq> None"
    proof -
      let ?eta = "''dengan estimasi tiba '' @ strftime_date (the (o_eta_date odr))"
      have "?eta \<in> set ?parts"
        using that s(1) by (simp add: order_response_parts_def)
      moreover have "contains (strftime_date (the (o_eta_date odr))) ?eta"
        using contains_refl_part [of "strftime_date (the (o_eta_date odr))" "''dengan estimasi tiba ''" "[]"]
        by simp
      ultimately show ?thesis unfolding m by (rule contains_part)
    qed
    show ?thesis
      using contains_part [OF h, of "''. ''" "''.''"] contains_part [OF v c, of "''. ''" "''.''"]
        contains_part [OF v t, of "''. ''" "''.''"] e
      by (simp add: m)
  qed
  have del: "\<not> list_ex (prefix ''dengan estimasi tiba '') ?parts" if "o_status odr = ''delivered''"
    using that by (simp add: eta_part_iff)
  show ?thesis
    using m p status_text_known status_text_other [of s] carrier_part_iff [of oid odr]
      eta_part_iff [of oid odr] ship del
    by blast
qed

theorem order_status_message_witness:
  "fst (get_order_status_impl ''ORD123'' empty_world) =
     ''Pesanan ORD123 sedang dalam pengiriman. via JNE dengan nomor resi JNE789. dengan estimasi tiba 18 September 2025. Terakhir diupdate: 16 September 2025 pukul 14:30.''
   \<and> contains ''JNE'' (fst (get_order_status_impl ''ORD123'' empty_world))
   \<and> contains ''JNE789'' (fst (get_order_status_impl ''ORD123'' empty_world))
   \<and> contains ''18 September 2025'' (fst (get_order_status_impl ''ORD123'' empty_world))
   \<and> fst (get_order_status_impl ''ORD123'' delivered_world) =
     ''Pesanan ORD123 telah sampai tujuan. via JNE dengan nomor resi JNE789. Terakhir diupdate: 16 September 2025 pukul 14:30.''
   \<and> \<not> list_ex (prefix ''dengan estimasi tiba '')
         (order_response_parts ''ORD123'' (example_order\<lparr>o_status := ''delivered''\<rparr>))
   \<and> status_text ''returned'' = ''returned''"
proof -
  have h1: "\<not> db_fails empty_world (db_ops empty_world)"
    "filter (\<lambda>odr. o_id odr = ''ORD123'') (orders empty_world) = [example_order]"
    by (simp_all add: empty_world_def example_order_def)
  have h2: "\<not> db_fails delivered_world (db_ops delivered_world)"
    "filter (\<lambda>odr. o_id odr = ''ORD123'') (orders delivered_world)
       = [example_order\<lparr>o_status := ''delivered''\<rparr>]"
    by (simp_all add: delivered_world_def empty_world_def example_order_def)
  have s: "o_status example_order = ''shipped''" "truthy (o_carrier example_order)"
    "truthy (o_tracking_number example_order)" "o_eta_date example_order \<noteq> None"
    "the (o_carrier example_order) = ''JNE''" "the (o_tracking_number example_order) = ''JNE789''"
    by (simp_all add: example_order_def truthy_def)
  have d: "strftime_date (the (o_eta_date example_order)) = ''18 September 2025''"
    by code_simp
  have p1: "join ''. '' (order_response_parts ''ORD123'' example_order) @ ''.'' =
     ''Pesanan ORD123 sedang dalam pengiriman. via JNE dengan nomor resi JNE789. dengan estimasi tiba 18 September 2025. Terakhir diupdate: 16 September 2025 pukul 14:30.''"
    by code_simp
  have p2: "join ''. '' (order_response_parts ''ORD123'' (example_order\<lparr>o_status := ''delivered''\<rparr>)) @ ''.'' =
     ''Pesanan ORD123 telah sampai tujuan. via JNE dengan nomor resi JNE789. Terakhir diupdate: 16 September 2025 pukul 14:30.''"
    by code_simp
  have n: "''returned'' \<notin> set [''pending'', ''confirmed'', ''shipped'', ''delivered'', ''cancelled'']"
    by simp
  note a = order_status_message [OF h1, of "''returned''"]
  note b = order_status_message [OF h2, of "''returned''"]
  have "\<not> list_ex (prefix ''dengan estimasi tiba '')
         (order_response_parts ''ORD123'' (example_order\<lparr>o_status := ''delivered''\<rparr>))"
    using b by simp
  moreover have "status_text ''returned'' = ''returned''"
    using a n by blast
  moreover have "contains ''JNE'' (fst (get_order_status_impl ''ORD123'' empty_world))
     \<and> contains ''JNE789'' (fst (get_order_status_impl ''ORD123'' empty_world))
     \<and> contains ''18 September 2025'' (fst (get_order_status_impl ''ORD123'' empty_world))"
    using a s d by metis
  moreover have "fst (get_order_status_impl ''ORD123'' empty_world) =
     ''Pesanan ORD123 sedang dalam pengiriman. via JNE dengan nomor resi JNE789. dengan estimasi tiba 18 September 2025. Terakhir diupdate: 16 September 2025 pukul 14:30.''"
    using a p1 by (simp only:)
  moreover have "fst (get_order_status_impl ''ORD123'' delivered_world) =
     ''Pesanan ORD123 telah sampai tujuan. via JNE dengan nomor resi JNE789. Terakhir diupdate: 16 September 2025 pukul 14:30.''"
    using b p2 by (simp only:)
  ultimately show ?thesis by blast
qed

section \<open>Warranty policy\<close>

lemma last_line_after_break:
  "CHR 0x0A \<notin> set b \<Longrightarrow> last_line (a @ CHR 0x0A # b) = b"
proof -
  assume n: "CHR 0x0A \<notin> set b"
  have "takeWhile (\<lambda>c. c \<noteq> CHR 0x0A) (rev b @ CHR 0x0A # rev a) = rev b"
    using n by (subst takeWhile_append2) auto
  then show ?thesis by (simp add: last_line_def)
qed

lemma warranty_summary_appended:
  "\<not> endswith r ''Ringkas:'' \<Longrightarrow>
   ensure_summary (generate_response_with_tools [(''warranty_policy'', r)])
     = r @ ''\<newline>\<newline>Ringkas: Prosedur klaim garansi telah dijelaskan lengkap.''"
proof -
  assume e: "\<not> endswith r ''Ringkas:''"
  have "contains ''Ringkas:'' ((r @ ''\<newline>\<newline>'') @ ''Ringkas:'' @ '' Prosedur klaim garansi telah dijelaskan lengkap.'')"
    by (rule contains_refl_part)
  then have "contains ''Ringkas:'' (r @ ''\<newline>\<newline>Ringkas: Prosedur klaim garansi telah dijelaskan lengkap.'')"
    by simp
  then show ?thesis
    using e by (simp add: generate_response_with_tools_def ensure_summary_marked)
qed

lemma warranty_summary_line:
  "ends_with_summary_line (r @ ''\<newline>\<newline>Ringkas: Prosedur klaim garansi telah dijelaskan lengkap.'')"
proof -
  have "last_line ((r @ ''\<newline>'') @ CHR 0x0A # ''Ringkas: Prosedur klaim garansi telah dijelaskan lengkap.'')
      = ''Ringkas: Prosedur klaim garansi telah dijelaskan lengkap.''"
    by (rule last_line_after_break) simp
  then show ?thesis by (simp add: ends_with_summary_line_def)
qed

lemma invoke_warranty:
  assumes "\<not> should_call_order_tool msg" "\<not> should_call_product_tool msg"
    "should_call_warranty_tool msg"
  shows "fst (invoke w msg ctx get_tools sid) =
     \<lparr>cr_message = ensure_summary
         (generate_response_with_tools [(''warranty_policy'', fst (get_warranty_policy_impl w))]),
      cr_tool_calls = [''get_warranty_policy''], cr_session_id = sid\<rparr>"
  using assms by (simp add: invoke_def Let_def dispatch_tools_def call_warranty_tool)

lemma default_policy_no_marker_end: "\<not> endswith default_warranty_policy ''Ringkas:''"
  by code_simp

text \<open>
  C9, as the code has it. When the lookup does not raise and no policy of type
  \<open>warranty\<close> exists, the warranty tool returns the fixed default text, and the reply to
  a text routed to the warranty intent is that text followed by the warranty summary, so
  its last line begins with \<open>Ringkas:\<close>. When the lookup does not raise and exactly one
  policy of type \<open>warranty\<close> exists, the tool returns its stored content unchanged.
\<close>

theorem warranty_policy_default_or_single_record:
  assumes "\<not> db_fails w (db_ops w)"
  shows "(filter (\<lambda>pol. pol_type pol = ''warranty'') (policies w) = [] \<longrightarrow>
       fst (get_warranty_policy_impl w) = default_warranty_policy
       \<and> (\<not> should_call_order_tool msg \<and> \<not> should_call_product_tool msg
            \<and> should_call_warranty_tool msg \<longrightarrow>
          cr_message (fst (invoke w msg ctx get_tools sid))
            = default_warranty_policy
              @ ''\<newline>\<newline>Ringkas: Prosedur klaim garansi telah dijelaskan lengkap.''
          \<and> cr_tool_calls (fst (invoke w msg ctx get_tools sid)) = [''get_warranty_policy'']
          \<and> ends_with_summary_line (cr_message (fst (invoke w msg ctx get_tools sid)))))
    \<and> (filter (\<lambda>pol. pol_type pol = ''warranty'') (policies w) = [pol] \<longrightarrow>
       fst (get_warranty_policy_impl w) = pol_content_markdown pol)"
proof (intro conjI impI)
  assume n: "filter (\<lambda>pol. pol_type pol = ''warranty'') (policies w) = []"
  then show d: "fst (get_warranty_policy_impl w) = default_warranty_policy"
    using assms by (simp add: get_warranty_policy_impl_def db_roundtrip_def scalar_one_or_none_def)
  assume r: "\<not> should_call_order_tool msg \<and> \<not> should_call_product_tool msg
            \<and> should_call_warranty_tool msg"
  then have i: "fst (invoke w msg ctx get_tools sid) =
     \<lparr>cr_message = default_warranty_policy
         @ ''\<newline>\<newline>Ringkas: Prosedur klaim garansi telah dijelaskan lengkap.'',
      cr_tool_calls = [''get_warranty_policy''], cr_session_id = sid\<rparr>"
    by (simp add: invoke_warranty d warranty_summary_appended [OF default_policy_no_marker_end])
  show "cr_message (fst (invoke w msg ctx get_tools sid))
            = default_warranty_policy
              @ ''\<newline>\<newline>Ringkas: Prosedur klaim garansi telah dijelaskan lengkap.''"
    by (simp add: i)
  show "cr_tool_calls (fst (invoke w msg ctx get_tools sid)) = [''get_warranty_policy'']"
    by (simp add: i)
  show "ends_with_summary_line (cr_message (fst (invoke w msg ctx get_tools sid)))"
    using warranty_summary_line [of default_warranty_policy] by (simp add: i)
next
  assume "filter (\<lambda>pol. pol_type pol = ''warranty'') (policies w) = [pol]"
  then show "fst (get_warranty_policy_impl w) = pol_content_markdown pol"
    using assms by (simp add: get_warranty_policy_impl_def db_roundtrip_def scalar_one_or_none_def)
qed

theorem warranty_policy_default_or_single_record_witness:
  "fst (get_warranty_policy_impl empty_world) = default_warranty_policy
   \<and> cr_tool_calls (fst (invoke empty_world ''Bagaimana cara klaim garansi?'' [] get_tools ''s1''))
       = [''get_warranty_policy'']
   \<and> ends_with_summary_line
       (cr_message (fst (invoke empty_world ''Bagaimana cara klaim garansi?'' [] get_tools ''s1'')))
   \<and> fst (get_warranty_policy_impl one_warranty_world) = ''Garansi resmi satu tahun.''"
proof -
  have h0: "\<not> db_fails empty_world (db_ops empty_world)"
    "filter (\<lambda>pol. pol_type pol = ''warranty'') (policies empty_world) = []"
    by (simp_all add: empty_world_def)
  have k: "\<not> should_call_order_tool ''Bagaimana cara klaim garansi?''
      \<and> \<not> should_call_product_tool ''Bagaimana cara klaim garansi?''
      \<and> should_call_warranty_tool ''Bagaimana cara klaim garansi?''"
    by code_simp
  have h1: "\<not> db_fails one_warranty_world (db_ops one_warranty_world)"
    "filter (\<lambda>pol. pol_type pol = ''warranty'') (policies one_warranty_world)
      = [\<lparr>pol_id = ''p1'', pol_type = ''warranty'', pol_content_markdown = ''Garansi resmi satu tahun.''\<rparr>]"
    by (simp_all add: one_warranty_world_def empty_world_def)
  show ?thesis
    using warranty_policy_default_or_single_record
        [OF h0(1), of "''Bagaimana cara klaim garansi?''" "[]" "''s1''"]
      warranty_policy_default_or_single_record [OF h1(1), where pol =
        "\<lparr>pol_id = ''p1'', pol_type = ''warranty'', pol_content_markdown = ''Garansi resmi satu tahun.''\<rparr>"]
      h0(2) k h1(2)
    by (metis policy.select_convs(3))
qed

text \<open>
  C9, as it is stated, fails when two policies of type \<open>warranty\<close> exist: the tool
  returns its apology, which is the content of neither.
\<close>

theorem warranty_two_records_counterexample:
  "filter (\<lambda>pol. pol_type pol = ''warranty'') (policies two_warranty_world) \<noteq> []
   \<and> fst (get_warranty_policy_impl two_warranty_world) = warranty_error_message
   \<and> fst (get_warranty_policy_impl two_warranty_world) \<noteq> ''Garansi resmi satu tahun.''
   \<and> fst (get_warranty_policy_impl two_warranty_world) \<noteq> ''Garansi toko dua tahun.''"
  by code_simp

end
